theory Spec2Isabelle
  imports
    Complex_Main
    "HOL-Library.Char_ord"
    "HOL-Library.List_Lexorder"
    "HOL-Library.Product_Lexorder"
    "HOL-Library.Option_ord"
begin

section \<open>A shallow embedding of the library catalogue API\<close>

text \<open>
  The repository is an Express application over Mongoose models. Each controller function
  is embedded as a HOL function from the store (the three collections as lists of documents,
  in natural order) and the request to the response, and for writes to the new store.
  The controllers exist in two generations: the basic ones
  (\<^verbatim>\<open>src/controllers/books.controller.js\<close>, \<^verbatim>\<open>src/controllers/authors.controller.js\<close>)
  and the extended ones (\<^verbatim>\<open>src/unnamed/part_006\<close>, \<^verbatim>\<open>src/unnamed/part_007\<close>). Where both
  define a function of the same name the embeddings carry the suffixes \<open>_basic\<close> and
  \<open>_ext\<close>.

  What is not code of the repository is either given a semantics here (the Mongoose and
  MongoDB operations the controllers call: \<open>find\<close>, \<open>countDocuments\<close>, \<open>findById\<close>,
  \<open>create\<close>, the aggregation stages) or taken as a parameter (\<open>runtime\<close>: the conversions
  of strings to numbers, text search, regular expressions, and the \<open>strictQuery\<close> setting of
  Mongoose).
  Store operations are total functions of the in-memory state: a lost connection is not
  modelled, so the \<^verbatim>\<open>catch\<close> blocks are reached only through the errors the operations
  themselves raise (cast errors, validation errors, duplicate keys).
\<close>

subsection \<open>JavaScript values and coercions\<close>

text \<open>
  A query-string parameter is absent (\<open>None\<close>, JavaScript \<^verbatim>\<open>undefined\<close>) or a string.
  \<open>when_truthy\<close> is the guard \<^verbatim>\<open>if (x) ...\<close> on such a value: the empty string is falsy.
\<close>

definition when_truthy :: "string option \<Rightarrow> string option" where
  "when_truthy v = (case v of None \<Rightarrow> None | Some s \<Rightarrow> (if s = [] then None else Some s))"

text \<open>
  After \<^verbatim>\<open>const { page = 1, limit = 10 } = req.query\<close> a paging parameter is the number of
  the default or the string of the request.
\<close>

datatype jsval = JNum int | JStr string

definition with_default :: "int \<Rightarrow> string option \<Rightarrow> jsval" where
  "with_default d v = (case v of None \<Rightarrow> JNum d | Some s \<Rightarrow> JStr s)"

definition is_digit :: "char \<Rightarrow> bool" where
  "is_digit c = (c \<in> set ''0123456789'')"

definition digit_value :: "char \<Rightarrow> nat" where
  "digit_value c = of_char c - 48"

definition digits_value :: "string \<Rightarrow> nat" where
  "digits_value s = foldl (\<lambda>n c. 10 * n + digit_value c) 0 s"

text \<open>
  The decimal numeral of a string: the number it denotes when it consists of one or more
  ASCII digits.
\<close>

definition decimal_numeral :: "string \<Rightarrow> int option" where
  "decimal_numeral s =
     (if s \<noteq> [] \<and> list_all is_digit s then Some (int (digits_value s)) else None)"

text \<open>
  A JavaScript number: a finite double with its exact value, or one of the three others.
\<close>

datatype jsnum = Fin rat | NaN | PosInf | NegInf

text \<open>
  What the controllers use and the repository does not define: the conversions of a string
  to a number by \<^verbatim>\<open>ToNumber\<close> (which the operators \<^verbatim>\<open>*\<close>, \<^verbatim>\<open>-\<close>, \<^verbatim>\<open>/\<close>, \<^verbatim>\<open><\<close>, \<^verbatim>\<open>>\<close> and the
  function \<^verbatim>\<open>Number\<close> apply), by \<^verbatim>\<open>parseInt\<close> and by \<^verbatim>\<open>parseFloat\<close>; the full-text match of
  \<^verbatim>\<open>$text\<close> against the indexed fields title and description; the case-insensitive
  regular-expression match of \<^verbatim>\<open>$regex\<close> (\<open>None\<close> when the pattern does not compile and
  MongoDB rejects the query); and Mongoose's \<open>strictQuery\<close> setting, whose default differs
  between the major versions of Mongoose. Strings are the UTF-8 bytes of the JavaScript
  strings.
\<close>

record runtime =
  StringToNumber :: "string \<Rightarrow> jsnum"
  StringParseInt :: "string \<Rightarrow> jsnum"
  parseFloat :: "string \<Rightarrow> jsnum"
  textSearch :: "string \<Rightarrow> string \<Rightarrow> string option \<Rightarrow> bool"
  regexTest :: "string \<Rightarrow> (string \<Rightarrow> bool) option"
  strictQuery :: bool

text \<open>
  \<^verbatim>\<open>ToNumber\<close> and \<^verbatim>\<open>parseInt\<close> on a paging parameter. A number is there only as a default
  of the destructuring, 1 or 10, which both leave as it is.
\<close>

definition ToNumber :: "runtime \<Rightarrow> jsval \<Rightarrow> jsnum" where
  "ToNumber rt v = (case v of JNum n \<Rightarrow> Fin (of_int n) | JStr s \<Rightarrow> StringToNumber rt s)"

definition parseInt :: "runtime \<Rightarrow> jsval \<Rightarrow> jsnum" where
  "parseInt rt v = (case v of JNum n \<Rightarrow> Fin (of_int n) | JStr s \<Rightarrow> StringParseInt rt s)"

text \<open>
  The paging arithmetic is modelled on the safe integers, the integers of absolute value up
  to \<open>2^53\<close>, on which the double arithmetic of JavaScript is exact as long as its results
  are safe integers too. \<open>safe_integer\<close> is the integer of such a number, and \<open>None\<close> for
  any other number.
\<close>

definition safe_integer :: "jsnum \<Rightarrow> int option" where
  "safe_integer x =
     (case x of
        Fin q \<Rightarrow> (if q = of_int \<lfloor>q\<rfloor> \<and> \<bar>q\<bar> \<le> 9007199254740992 then Some \<lfloor>q\<rfloor> else None)
      | NaN \<Rightarrow> None
      | PosInf \<Rightarrow> None
      | NegInf \<Rightarrow> None)"

text \<open>
  \<^verbatim>\<open>Math.ceil(count / limit)\<close> for a count and a positive safe integer limit. A collection
  holds fewer than \<open>2^53\<close> documents; the double division rounds the quotient of two such
  integers to an integer only if it is one, so the ceiling of the exact quotient is what
  JavaScript computes.
\<close>

definition Math_ceil_div :: "nat \<Rightarrow> int \<Rightarrow> int" where
  "Math_ceil_div c l = \<lceil>rat_of_nat c / rat_of_int l\<rceil>"

text \<open>The relation \<^verbatim>\<open><\<close> on numbers: false whenever an operand is \<^verbatim>\<open>NaN\<close>.\<close>

fun js_less :: "jsnum \<Rightarrow> jsnum \<Rightarrow> bool" where
  "js_less (Fin a) (Fin b) = (a < b)"
| "js_less (Fin a) PosInf = True"
| "js_less NegInf (Fin b) = True"
| "js_less NegInf PosInf = True"
| "js_less _ _ = False"

text \<open>
  A value of a JSON document under a key: \<^verbatim>\<open>null\<close>, a boolean, a number or a string.
  Arrays and objects are not modelled. \<open>json_number\<close> is \<^verbatim>\<open>ToNumber\<close> on such a value.
  In the other direction \<^verbatim>\<open>res.json\<close> writes a string as it is, a finite number as a
  number, and \<^verbatim>\<open>NaN\<close> and the infinities as \<^verbatim>\<open>null\<close>.
\<close>

datatype json = JNull | JBool bool | JNumber rat | JString string

definition json_number :: "runtime \<Rightarrow> json \<Rightarrow> jsnum" where
  "json_number rt v =
     (case v of
        JNull \<Rightarrow> Fin 0
      | JBool b \<Rightarrow> Fin (if b then 1 else 0)
      | JNumber r \<Rightarrow> Fin r
      | JString s \<Rightarrow> StringToNumber rt s)"

definition number_json :: "jsnum \<Rightarrow> json" where
  "number_json x = (case x of Fin q \<Rightarrow> JNumber q | NaN \<Rightarrow> JNull | PosInf \<Rightarrow> JNull | NegInf \<Rightarrow> JNull)"

definition to_json :: "jsval \<Rightarrow> json" where
  "to_json v = (case v of JNum n \<Rightarrow> JNumber (of_int n) | JStr s \<Rightarrow> JString s)"

text \<open>
  \<^verbatim>\<open>String.prototype.trim\<close>, which Mongoose applies as the setter \<^verbatim>\<open>trim: true\<close>: it
  strips the white space and the line terminators of ECMAScript at both ends. In UTF-8
  these are six ASCII characters, the no-break space U+00A0 (two bytes), and U+1680,
  U+2000 to U+200A, U+2028, U+2029, U+202F, U+205F, U+3000 and U+FEFF (three bytes each).
\<close>

definition space1 :: "char \<Rightarrow> bool" where
  "space1 c = (c \<in> set [CHR 0x09, CHR 0x0A, CHR 0x0B, CHR 0x0C, CHR 0x0D, CHR 0x20])"

definition space2 :: "char \<Rightarrow> char \<Rightarrow> bool" where
  "space2 a b = (a = CHR 0xC2 \<and> b = CHR 0xA0)"

definition space3 :: "char \<Rightarrow> char \<Rightarrow> char \<Rightarrow> bool" where
  "space3 a b c =
     ((a = CHR 0xE1 \<and> b = CHR 0x9A \<and> c = CHR 0x80) \<or>
      (a = CHR 0xE2 \<and> b = CHR 0x80 \<and>
         c \<in> set [CHR 0x80, CHR 0x81, CHR 0x82, CHR 0x83, CHR 0x84, CHR 0x85, CHR 0x86, CHR 0x87,
                   CHR 0x88, CHR 0x89, CHR 0x8A, CHR 0xA8, CHR 0xA9, CHR 0xAF]) \<or>
      (a = CHR 0xE2 \<and> b = CHR 0x81 \<and> c = CHR 0x9F) \<or>
      (a = CHR 0xE3 \<and> b = CHR 0x80 \<and> c = CHR 0x80) \<or>
      (a = CHR 0xEF \<and> b = CHR 0xBB \<and> c = CHR 0xBF))"

text \<open>
  Stripping at the start, given the tests for the sequences of two and of three bytes. The
  end is stripped as the start of the reversed string, with the tests reversed: in UTF-8
  no character ends with the bytes of another.
\<close>

fun strip_start ::
  "(char \<Rightarrow> char \<Rightarrow> bool) \<Rightarrow> (char \<Rightarrow> char \<Rightarrow> char \<Rightarrow> bool) \<Rightarrow> string \<Rightarrow> string" where
  "strip_start s2 s3 (a # b # c # s) =
     (if space1 a then strip_start s2 s3 (b # c # s)
      else if s2 a b then strip_start s2 s3 (c # s)
      else if s3 a b c then strip_start s2 s3 s
      else a # b # c # s)"
| "strip_start s2 s3 [a, b] =
     (if space1 a then strip_start s2 s3 [b] else if s2 a b then [] else [a, b])"
| "strip_start s2 s3 [a] = (if space1 a then [] else [a])"
| "strip_start s2 s3 [] = []"

definition trim :: "string \<Rightarrow> string" where
  "trim s =
     rev (strip_start (\<lambda>a b. space2 b a) (\<lambda>a b c. space3 c b a)
            (rev (strip_start space2 space3 s)))"

text \<open>The decimal rendering of a count inside a template literal.\<close>

definition digit_char :: "nat \<Rightarrow> char" where
  "digit_char d = ''0123456789'' ! d"

fun decimal :: "nat \<Rightarrow> string" where
  "decimal n = (if n < 10 then [digit_char n] else decimal (n div 10) @ [digit_char (n mod 10)])"

declare decimal.simps [simp del]

subsection \<open>Documents and the store\<close>

text \<open>
  An ObjectId is an abstract identity. An id that arrives in a request (path parameter,
  query string or body) is classified by what Mongoose's cast to ObjectId makes of it:
  no value (\<open>NoId\<close>: the key is absent), a value that does not cast (\<open>BadId\<close>: the query
  or the validation raises a CastError; the empty string in a body is such a value), or an
  ObjectId.
\<close>

type_synonym objectId = nat

datatype idarg = NoId | BadId | GoodId objectId

text \<open>The Author schema (\<^verbatim>\<open>src/unnamed/part_002\<close>). Dates are timestamps.\<close>

record Author =
  author_id :: objectId
  name :: string
  biography :: "string option"
  birthDate :: "nat option"
  nationality :: "string option"
  email :: "string option"
  website :: "string option"
  author_createdAt :: nat
  author_updatedAt :: nat

text \<open>
  Modelled from the spec: the Category model (\<^verbatim>\<open>models/Category.js\<close>, required by the
  extended books controller) is not among the sources. The spec gives it an identity,
  a name and a slug.
\<close>

record Category =
  category_id :: objectId
  category_name :: string
  category_slug :: string

text \<open>
  Modelled from the spec: the field \<open>category\<close> of a Book, an optional reference to a
  Category. The Book model of the extended variant, on whose category the extended controller
  filters and groups, is not among the sources. The other fields are those of the Book schema
  of the basic variant (\<^verbatim>\<open>src/unnamed/part_003\<close>); the fields with a schema default
  (\<open>genre\<close>, \<open>language\<close>, \<open>inStock\<close>, \<open>rating\<close>) are always present in a stored document.
  A rating can be \<^verbatim>\<open>null\<close> (\<open>None\<close>): the validators \<open>min\<close> and \<open>max\<close> accept it on an
  update.
\<close>

record Book =
  book_id :: objectId
  title :: string
  author :: objectId
  isbn :: "string option"
  publishedDate :: "nat option"
  publisher :: "string option"
  pages :: "rat option"
  genre :: string
  description :: "string option"
  language :: string
  price :: "rat option"
  inStock :: bool
  rating :: "rat option"
  category :: "objectId option"
  createdAt :: nat
  updatedAt :: nat

record store =
  authors :: "Author list"
  books :: "Book list"
  categories :: "Category list"

datatype store_error = CastError | ValidationError | DuplicateKey | BadQuery

subsection \<open>The response envelope\<close>

text \<open>
  \<^verbatim>\<open>{success, data, message, error, totalPages, currentPage, total, count}\<close>; a field that
  the handler does not set is \<open>None\<close>. The field \<^verbatim>\<open>total\<close> is \<open>totalDocs\<close> here. The field
  \<open>error\<close> carries the message of the caught error, here the error itself. \<open>currentPage\<close>
  is the JSON value that \<^verbatim>\<open>res.json\<close> writes. A response is the HTTP status with the
  envelope.
\<close>

record 'd envelope =
  success :: bool
  data :: "'d option"
  message :: "string option"
  error :: "store_error option"
  totalPages :: "int option"
  currentPage :: "json option"
  totalDocs :: "nat option"
  count :: "nat option"

type_synonym 'd response = "nat \<times> 'd envelope"

definition envelope0 :: "bool \<Rightarrow> 'd envelope" where
  "envelope0 ok = \<lparr> success = ok, data = None, message = None, error = None,
     totalPages = None, currentPage = None, totalDocs = None, count = None \<rparr>"

definition failure :: "nat \<Rightarrow> string \<Rightarrow> 'd response" where
  "failure code msg = (code, (envelope0 False)\<lparr> message := Some msg \<rparr>)"

definition failure_with :: "nat \<Rightarrow> string \<Rightarrow> store_error \<Rightarrow> 'd response" where
  "failure_with code msg e = (code, (envelope0 False)\<lparr> message := Some msg, error := Some e \<rparr>)"

definition page_envelope :: "'d \<Rightarrow> int \<Rightarrow> json \<Rightarrow> nat \<Rightarrow> 'd response" where
  "page_envelope d tp cp n =
     (200, (envelope0 True)\<lparr> data := Some d, totalPages := Some tp, currentPage := Some cp,
        totalDocs := Some n \<rparr>)"

subsection \<open>Queries on the Book collection\<close>

text \<open>
  The query string of the list endpoint, \<^verbatim>\<open>req.query\<close>. The category parameter is kept as
  the id it casts to (\<open>NoId\<close> when it is absent or empty: the guard \<^verbatim>\<open>if (category)\<close> then
  adds no condition).
\<close>

record books_request =
  qs_page :: "string option"
  qs_limit :: "string option"
  qs_genre :: "string option"
  qs_inStock :: "string option"
  qs_search :: "string option"
  qs_category :: idarg
  qs_minRating :: "string option"
  qs_maxRating :: "string option"

text \<open>
  The object \<^verbatim>\<open>query\<close> that \<open>getAllBooks\<close> fills in: a key that was not assigned is \<open>None\<close>
  (\<open>NoId\<close> for the category). \<^verbatim>\<open>query.rating\<close> holds \<^verbatim>\<open>$gte\<close> and \<^verbatim>\<open>$lte\<close>.
\<close>

record book_query =
  q_genre :: "string option"
  q_category :: idarg
  q_inStock :: "bool option"
  q_rating_gte :: "jsnum option"
  q_rating_lte :: "jsnum option"
  q_text :: "string option"

text \<open>\<^verbatim>\<open>src/controllers/books.controller.js\<close> lines 11 to 22.\<close>

definition build_query_basic :: "books_request \<Rightarrow> book_query" where
  "build_query_basic req =
     \<lparr> q_genre = when_truthy (qs_genre req),
       q_category = NoId,
       q_inStock = (case qs_inStock req of None \<Rightarrow> None | Some v \<Rightarrow> Some (v = ''true'')),
       q_rating_gte = None,
       q_rating_lte = None,
       q_text = when_truthy (qs_search req) \<rparr>"

text \<open>\<^verbatim>\<open>src/unnamed/part_006\<close> lines 12 to 30.\<close>

definition build_query_ext :: "runtime \<Rightarrow> books_request \<Rightarrow> book_query" where
  "build_query_ext rt req =
     \<lparr> q_genre = when_truthy (qs_genre req),
       q_category = qs_category req,
       q_inStock = (case qs_inStock req of None \<Rightarrow> None | Some v \<Rightarrow> Some (v = ''true'')),
       q_rating_gte = map_option (parseFloat rt) (when_truthy (qs_minRating req)),
       q_rating_lte = map_option (parseFloat rt) (when_truthy (qs_maxRating req)),
       q_text = when_truthy (qs_search req) \<rparr>"

text \<open>
  \<^verbatim>\<open>$gte\<close> and \<^verbatim>\<open>$lte\<close> with a number: a rating that is \<^verbatim>\<open>null\<close> matches neither.
\<close>

fun rating_gte :: "rat option \<Rightarrow> jsnum \<Rightarrow> bool" where
  "rating_gte (Some r) (Fin x) = (x \<le> r)"
| "rating_gte (Some r) NegInf = True"
| "rating_gte _ _ = False"

fun rating_lte :: "rat option \<Rightarrow> jsnum \<Rightarrow> bool" where
  "rating_lte (Some r) (Fin x) = (r \<le> x)"
| "rating_lte (Some r) PosInf = True"
| "rating_lte _ _ = False"

text \<open>
  Mongoose casts the conditions to the schema types before the query is sent: a category
  that is no ObjectId and a rating bound that is \<^verbatim>\<open>NaN\<close> raise a CastError.
\<close>

definition query_cast_error :: "book_query \<Rightarrow> bool" where
  "query_cast_error q =
     (q_category q = BadId \<or> q_rating_gte q = Some NaN \<or> q_rating_lte q = Some NaN)"

definition book_matches :: "runtime \<Rightarrow> book_query \<Rightarrow> Book \<Rightarrow> bool" where
  "book_matches rt q b =
     ((case q_genre q of None \<Rightarrow> True | Some g \<Rightarrow> genre b = g) \<and>
      (case q_category q of GoodId c \<Rightarrow> category b = Some c | _ \<Rightarrow> True) \<and>
      (case q_inStock q of None \<Rightarrow> True | Some v \<Rightarrow> inStock b = v) \<and>
      (case q_rating_gte q of None \<Rightarrow> True | Some x \<Rightarrow> rating_gte (rating b) x) \<and>
      (case q_rating_lte q of None \<Rightarrow> True | Some x \<Rightarrow> rating_lte (rating b) x) \<and>
      (case q_text q of None \<Rightarrow> True | Some s \<Rightarrow> textSearch rt s (title b) (description b)))"

text \<open>
  The conditions object handed to \<^verbatim>\<open>Book.find\<close>. The extended controller passes
  \<^verbatim>\<open>query\<close> itself; the basic controller passes \<^verbatim>\<open>{query}\<close>, the object whose only key
  \<^verbatim>\<open>query\<close> holds it.
\<close>

datatype find_conditions = Conditions book_query | Under_query_key book_query

text \<open>
  \<^verbatim>\<open>Book.find(conditions)\<close>, before sort, skip and limit. The Book schema has no path
  \<^verbatim>\<open>query\<close>. With \<open>strictQuery\<close> on, Mongoose removes the unknown path and the conditions
  are empty: every document matches. With \<open>strictQuery\<close> off the condition is sent as it
  is, an equality on a field that no stored Book has (the schema is strict on writes): no
  document matches; and if \<^verbatim>\<open>$text\<close> is the first key of the nested object, MongoDB reads
  the object as an operator expression and rejects the operator.
\<close>

definition Book_find :: "runtime \<Rightarrow> Book list \<Rightarrow> find_conditions \<Rightarrow> store_error + Book list" where
  "Book_find rt bs c =
     (case c of
        Conditions q \<Rightarrow>
          if query_cast_error q then Inl CastError else Inr (filter (book_matches rt q) bs)
      | Under_query_key q \<Rightarrow>
          if strictQuery rt then Inr bs
          else if q_genre q = None \<and> q_inStock q = None \<and> q_text q \<noteq> None then Inl BadQuery
          else Inr [])"

definition Book_countDocuments :: "runtime \<Rightarrow> Book list \<Rightarrow> book_query \<Rightarrow> store_error + nat" where
  "Book_countDocuments rt bs q =
     (if query_cast_error q then Inl CastError else Inr (length (filter (book_matches rt q) bs)))"

text \<open>
  \<^verbatim>\<open>.sort({ createdAt: -1 })\<close>. MongoDB leaves the order of documents with equal keys open;
  the model sorts stably.
\<close>

definition sort_createdAt_desc :: "Book list \<Rightarrow> Book list" where
  "sort_createdAt_desc bs = sort_key (\<lambda>b. - int (createdAt b)) bs"

text \<open>
  \<^verbatim>\<open>.limit(l).skip(s)\<close>: whatever the order of the calls on the query builder, the cursor
  sorts, then skips, then limits.
\<close>

definition skip_limit :: "int \<Rightarrow> int \<Rightarrow> 'a list \<Rightarrow> 'a list" where
  "skip_limit s l xs = take (nat l) (drop (nat s) xs)"

text \<open>\<^verbatim>\<open>.populate('author', 'name nationality')\<close> and \<^verbatim>\<open>.populate('category', 'name slug')\<close>.\<close>

record author_ref =
  ref_id :: objectId
  ref_name :: string
  ref_nationality :: "string option"

record category_ref =
  cref_id :: objectId
  cref_name :: string
  cref_slug :: string

definition populate_author :: "store \<Rightarrow> objectId \<Rightarrow> author_ref option" where
  "populate_author st i =
     map_option (\<lambda>a. \<lparr> ref_id = author_id a, ref_name = name a, ref_nationality = nationality a \<rparr>)
       (find (\<lambda>a. author_id a = i) (authors st))"

definition populate_category :: "store \<Rightarrow> objectId option \<Rightarrow> category_ref option" where
  "populate_category st c =
     (case c of None \<Rightarrow> None
      | Some i \<Rightarrow>
          map_option
            (\<lambda>k. \<lparr> cref_id = category_id k, cref_name = category_name k, cref_slug = category_slug k \<rparr>)
            (find (\<lambda>k. category_id k = i) (categories st)))"

definition server_error :: "store_error \<Rightarrow> 'd response" where
  "server_error e = failure_with 500 ''Server Error'' e"

subsection \<open>\<open>getAllBooks\<close>\<close>

text \<open>
  The list handlers are modelled for a limit and a page that \<^verbatim>\<open>ToNumber\<close> reads as safe
  integers of at least 1 (the defaults included) with a skip \<^verbatim>\<open>(page - 1) * limit\<close> of at
  most \<open>2^53\<close>. For any other value the result is \<open>None\<close>, which stands for no particular
  response: what the driver and the server make of a limit or a skip that is zero,
  negative, fractional, \<^verbatim>\<open>NaN\<close> or beyond the 64-bit integers depends on their versions,
  which the repository does not fix.

  \<^verbatim>\<open>src/controllers/books.controller.js\<close> lines 7 to 46. The documents are found with
  \<^verbatim>\<open>Book.find({query})\<close> and counted with \<^verbatim>\<open>Book.countDocuments(query)\<close>; \<open>currentPage\<close>
  is the page as it was received.
\<close>

definition getAllBooks_basic ::
  "runtime \<Rightarrow> store \<Rightarrow> books_request \<Rightarrow> (Book \<times> author_ref option) list response option" where
  "getAllBooks_basic rt st req =
     (let page = with_default 1 (qs_page req);
          limit = with_default 10 (qs_limit req);
          query = build_query_basic req
      in case (safe_integer (ToNumber rt limit), safe_integer (ToNumber rt page)) of
           (Some l, Some p) \<Rightarrow>
             if 1 \<le> l \<and> 1 \<le> p \<and> (p - 1) * l \<le> 9007199254740992 then
               Some (case Book_find rt (books st) (Under_query_key query) of
                       Inl e \<Rightarrow> server_error e
                     | Inr found \<Rightarrow>
                         (case Book_countDocuments rt (books st) query of
                            Inl e \<Rightarrow> server_error e
                          | Inr n \<Rightarrow>
                              page_envelope
                                (map (\<lambda>b. (b, populate_author st (author b)))
                                   (skip_limit ((p - 1) * l) (l * 1) (sort_createdAt_desc found)))
                                (Math_ceil_div n l) (to_json page) n))
             else None
         | _ \<Rightarrow> None)"

text \<open>
  \<^verbatim>\<open>src/unnamed/part_006\<close> lines 8 to 55: \<^verbatim>\<open>Book.find(query)\<close>, both references populated,
  \<open>currentPage\<close> is \<^verbatim>\<open>parseInt(page)\<close>.
\<close>

definition getAllBooks_ext ::
  "runtime \<Rightarrow> store \<Rightarrow> books_request
     \<Rightarrow> (Book \<times> author_ref option \<times> category_ref option) list response option" where
  "getAllBooks_ext rt st req =
     (let page = with_default 1 (qs_page req);
          limit = with_default 10 (qs_limit req);
          query = build_query_ext rt req
      in case (safe_integer (ToNumber rt limit), safe_integer (ToNumber rt page)) of
           (Some l, Some p) \<Rightarrow>
             if 1 \<le> l \<and> 1 \<le> p \<and> (p - 1) * l \<le> 9007199254740992 then
               Some (case Book_find rt (books st) (Conditions query) of
                       Inl e \<Rightarrow> server_error e
                     | Inr found \<Rightarrow>
                         (case Book_countDocuments rt (books st) query of
                            Inl e \<Rightarrow> server_error e
                          | Inr n \<Rightarrow>
                              page_envelope
                                (map (\<lambda>b. (b, populate_author st (author b),
                                             populate_category st (category b)))
                                   (skip_limit ((p - 1) * l) (l * 1) (sort_createdAt_desc found)))
                                (Math_ceil_div n l) (number_json (parseInt rt page)) n))
             else None
         | _ \<Rightarrow> None)"

subsection \<open>Queries on the Author collection\<close>

record authors_request =
  aq_page :: "string option"
  aq_limit :: "string option"
  aq_search :: "string option"
  aq_nationality :: "string option"
  aq_sortBy :: "string option"
  aq_order :: "string option"

text \<open>The \<^verbatim>\<open>query\<close> object of \<open>getAllAuthors\<close>: an exact nationality and a \<^verbatim>\<open>$regex\<close> on the name.\<close>

record author_query =
  q_nationality :: "string option"
  q_name_regex :: "string option"

definition build_author_query :: "authors_request \<Rightarrow> author_query" where
  "build_author_query req =
     \<lparr> q_nationality = when_truthy (aq_nationality req),
       q_name_regex = when_truthy (aq_search req) \<rparr>"

text \<open>
  Mongoose casts the conditions with the schema: the setter \<^verbatim>\<open>trim: true\<close> of the path
  \<open>nationality\<close> runs on the value of the query, so the stored nationality is compared with
  the trimmed value. A \<^verbatim>\<open>$regex\<close> is not cast.
\<close>

definition author_matches :: "author_query \<Rightarrow> (string \<Rightarrow> bool) \<Rightarrow> Author \<Rightarrow> bool" where
  "author_matches q re a =
     ((case q_nationality q of None \<Rightarrow> True | Some n \<Rightarrow> nationality a = Some (trim n)) \<and>
      (case q_name_regex q of None \<Rightarrow> True | Some _ \<Rightarrow> re (name a)))"

text \<open>
  \<^verbatim>\<open>Author.find(query)\<close> before sort, skip and limit, and \<^verbatim>\<open>Author.countDocuments(query)\<close>.
  A pattern that does not compile makes MongoDB reject the query.
\<close>

definition Author_find :: "runtime \<Rightarrow> Author list \<Rightarrow> author_query \<Rightarrow> store_error + Author list" where
  "Author_find rt as q =
     (case q_name_regex q of
        None \<Rightarrow> Inr (filter (author_matches q (\<lambda>_. True)) as)
      | Some pat \<Rightarrow>
          (case regexTest rt pat of
             None \<Rightarrow> Inl BadQuery
           | Some re \<Rightarrow> Inr (filter (author_matches q re) as)))"

definition Author_countDocuments :: "runtime \<Rightarrow> Author list \<Rightarrow> author_query \<Rightarrow> store_error + nat" where
  "Author_countDocuments rt as q = map_sum id length (Author_find rt as q)"

text \<open>
  Sorting on a path given by name. Values compare in the BSON order: a missing field as null,
  before numbers, before strings, before ObjectIds, before dates; strings by code unit.
\<close>

datatype bson = BNull | BNumber int | BString string | BObjectId objectId | BDate nat

definition bson_order :: "bson \<Rightarrow> nat \<times> string \<times> int" where
  "bson_order v =
     (case v of
        BNull \<Rightarrow> (1, [], 0)
      | BNumber n \<Rightarrow> (2, [], n)
      | BString s \<Rightarrow> (3, s, 0)
      | BObjectId i \<Rightarrow> (7, [], int i)
      | BDate d \<Rightarrow> (9, [], int d))"

definition opt_bson :: "('a \<Rightarrow> bson) \<Rightarrow> 'a option \<Rightarrow> bson" where
  "opt_bson f v = (case v of None \<Rightarrow> BNull | Some x \<Rightarrow> f x)"

text \<open>
  The value of a stored Author document under a path given by name. A name that is no path
  of the schema is a field that no stored Author has: null in every document. A name that
  is empty or holds a dollar sign or a dot is not modelled (\<open>None\<close>).
\<close>

definition author_path :: "string \<Rightarrow> (Author \<Rightarrow> bson) option" where
  "author_path p =
     (if p = ''_id'' then Some (\<lambda>a. BObjectId (author_id a))
      else if p = ''name'' then Some (\<lambda>a. BString (name a))
      else if p = ''biography'' then Some (\<lambda>a. opt_bson BString (biography a))
      else if p = ''birthDate'' then Some (\<lambda>a. opt_bson BDate (birthDate a))
      else if p = ''nationality'' then Some (\<lambda>a. opt_bson BString (nationality a))
      else if p = ''email'' then Some (\<lambda>a. opt_bson BString (email a))
      else if p = ''website'' then Some (\<lambda>a. opt_bson BString (website a))
      else if p = ''createdAt'' then Some (\<lambda>a. BDate (author_createdAt a))
      else if p = ''updatedAt'' then Some (\<lambda>a. BDate (author_updatedAt a))
      else if p = ''__v'' then Some (\<lambda>a. BNumber 0)
      else if p = [] \<or> CHR ''$'' \<in> set p \<or> CHR ''.'' \<in> set p then None
      else Some (\<lambda>a. BNull))"

text \<open>\<^verbatim>\<open>.sort({ [path]: direction })\<close> with direction 1 or -1, stable in both directions.\<close>

definition sort_by_path :: "('a \<Rightarrow> bson) \<Rightarrow> int \<Rightarrow> 'a list \<Rightarrow> 'a list" where
  "sort_by_path f dir xs =
     (if dir = 1 then sort_key (\<lambda>x. bson_order (f x)) xs
      else rev (sort_key (\<lambda>x. bson_order (f x)) (rev xs)))"

subsection \<open>\<open>getAllAuthors\<close>\<close>

text \<open>
  \<^verbatim>\<open>src/controllers/authors.controller.js\<close> lines 7 to 42: sorted by \<^verbatim>\<open>{ name: 1 }\<close>,
  \<open>currentPage\<close> is the page as it was received. Page and limit as for \<open>getAllBooks\<close>.
\<close>

definition getAllAuthors_basic ::
  "runtime \<Rightarrow> store \<Rightarrow> authors_request \<Rightarrow> Author list response option" where
  "getAllAuthors_basic rt st req =
     (let page = with_default 1 (aq_page req);
          limit = with_default 10 (aq_limit req);
          query = build_author_query req
      in case (safe_integer (ToNumber rt limit), safe_integer (ToNumber rt page)) of
           (Some l, Some p) \<Rightarrow>
             if 1 \<le> l \<and> 1 \<le> p \<and> (p - 1) * l \<le> 9007199254740992 then
               Some (case Author_find rt (authors st) query of
                       Inl e \<Rightarrow> server_error e
                     | Inr found \<Rightarrow>
                         (case Author_countDocuments rt (authors st) query of
                            Inl e \<Rightarrow> server_error e
                          | Inr n \<Rightarrow>
                              page_envelope
                                (skip_limit ((p - 1) * l) (l * 1)
                                   (sort_by_path (\<lambda>a. BString (name a)) 1 found))
                                (Math_ceil_div n l) (to_json page) n))
             else None
         | _ \<Rightarrow> None)"

text \<open>
  \<^verbatim>\<open>src/unnamed/part_007\<close> lines 7 to 45: \<^verbatim>\<open>sortBy = 'name'\<close> and \<^verbatim>\<open>order = 'asc'\<close> by
  default, the direction is 1 for \<^verbatim>\<open>'asc'\<close> and -1 for anything else, \<open>currentPage\<close> is
  \<^verbatim>\<open>parseInt(page)\<close>.
\<close>

definition getAllAuthors_ext ::
  "runtime \<Rightarrow> store \<Rightarrow> authors_request \<Rightarrow> Author list response option" where
  "getAllAuthors_ext rt st req =
     (let page = with_default 1 (aq_page req);
          limit = with_default 10 (aq_limit req);
          sortBy = (case aq_sortBy req of None \<Rightarrow> ''name'' | Some s \<Rightarrow> s);
          order = (case aq_order req of None \<Rightarrow> ''asc'' | Some s \<Rightarrow> s);
          query = build_author_query req;
          sortOrder = (if order = ''asc'' then 1 else - 1)
      in case (safe_integer (ToNumber rt limit), safe_integer (ToNumber rt page),
               author_path sortBy) of
           (Some l, Some p, Some sortPath) \<Rightarrow>
             if 1 \<le> l \<and> 1 \<le> p \<and> (p - 1) * l \<le> 9007199254740992 then
               Some (case Author_find rt (authors st) query of
                       Inl e \<Rightarrow> server_error e
                     | Inr found \<Rightarrow>
                         (case Author_countDocuments rt (authors st) query of
                            Inl e \<Rightarrow> server_error e
                          | Inr n \<Rightarrow>
                              page_envelope
                                (skip_limit ((p - 1) * l) (l * 1)
                                   (sort_by_path sortPath sortOrder found))
                                (Math_ceil_div n l) (number_json (parseInt rt page)) n))
             else None
         | _ \<Rightarrow> None)"

subsection \<open>\<open>searchAuthors\<close>\<close>

record search_request =
  sq_query :: "string option"
  sq_nationality :: "string option"
  sq_limit :: "string option"

text \<open>
  \<^verbatim>\<open>searchQuery\<close>: the pattern, matched without case against name or biography, and an
  optional exact nationality, which Mongoose trims when it casts the conditions.
\<close>

record author_search_query =
  s_regex :: string
  s_nationality :: "string option"

text \<open>
  The handler is modelled with the list of the calls it makes on the store, so that a
  response produced before any call shows as such.
\<close>

datatype store_call = Author_find_call author_search_query int

definition search_matches :: "author_search_query \<Rightarrow> (string \<Rightarrow> bool) \<Rightarrow> Author \<Rightarrow> bool" where
  "search_matches q re a =
     ((re (name a) \<or> (case biography a of None \<Rightarrow> False | Some b \<Rightarrow> re b)) \<and>
      (case s_nationality q of None \<Rightarrow> True | Some n \<Rightarrow> nationality a = Some (trim n)))"

text \<open>
  \<^verbatim>\<open>src/unnamed/part_007\<close> lines 269 to 307. The limit is \<^verbatim>\<open>parseInt(limit)\<close>, modelled
  for the safe integers of at least 1.
\<close>

definition searchAuthors ::
  "runtime \<Rightarrow> store \<Rightarrow> search_request \<Rightarrow> (Author list response \<times> store_call list) option" where
  "searchAuthors rt st req =
     (let limit = with_default 10 (sq_limit req)
      in case when_truthy (sq_query req) of
           None \<Rightarrow> Some (failure 400 ''Search query is required'', [])
         | Some query \<Rightarrow>
             (let searchQuery =
                    \<lparr> s_regex = query, s_nationality = when_truthy (sq_nationality req) \<rparr>
              in case safe_integer (parseInt rt limit) of
                   None \<Rightarrow> None
                 | Some l \<Rightarrow>
                     if 1 \<le> l then
                       Some (case regexTest rt query of
                               None \<Rightarrow> server_error BadQuery
                             | Some re \<Rightarrow>
                                 (let found = skip_limit 0 l
                                        (sort_by_path (\<lambda>a. BString (name a)) 1
                                           (filter (search_matches searchQuery re) (authors st)))
                                  in (200, (envelope0 True)
                                        \<lparr> data := Some found, count := Some (length found) \<rparr>)),
                             [Author_find_call searchQuery l])
                     else None))"

subsection \<open>\<open>deleteAuthor\<close>\<close>

text \<open>\<^verbatim>\<open>Model.findById(id)\<close>: the first document with the id; a CastError for an id that does not cast.\<close>

definition Author_findById :: "Author list \<Rightarrow> idarg \<Rightarrow> store_error + Author option" where
  "Author_findById as i =
     (case i of
        NoId \<Rightarrow> Inr None
      | BadId \<Rightarrow> Inl CastError
      | GoodId k \<Rightarrow> Inr (find (\<lambda>a. author_id a = k) as))"

text \<open>\<^verbatim>\<open>Book.countDocuments({ author: id })\<close>. No stored Book is without an author.\<close>

definition Book_countDocuments_author :: "Book list \<Rightarrow> idarg \<Rightarrow> store_error + nat" where
  "Book_countDocuments_author bs i =
     (case i of
        NoId \<Rightarrow> Inr 0
      | BadId \<Rightarrow> Inl CastError
      | GoodId k \<Rightarrow> Inr (length (filter (\<lambda>b. author b = k) bs)))"

fun delete_first :: "('a \<Rightarrow> bool) \<Rightarrow> 'a list \<Rightarrow> 'a list" where
  "delete_first P [] = []"
| "delete_first P (x # xs) = (if P x then xs else x # delete_first P xs)"

text \<open>\<^verbatim>\<open>Author.findByIdAndDelete(id)\<close>: the collection without the first document with the id.\<close>

definition Author_findByIdAndDelete :: "Author list \<Rightarrow> idarg \<Rightarrow> store_error + Author list" where
  "Author_findByIdAndDelete as i =
     (case i of
        NoId \<Rightarrow> Inr as
      | BadId \<Rightarrow> Inl CastError
      | GoodId k \<Rightarrow> Inr (delete_first (\<lambda>a. author_id a = k) as))"

definition ok_message :: "string \<Rightarrow> 'd response" where
  "ok_message msg = (200, (envelope0 True)\<lparr> message := Some msg \<rparr>)"

text \<open>
  The body shared by the two variants, which differ in the tail of the message
  (\<^verbatim>\<open>src/controllers/authors.controller.js\<close> lines 134 to 168, \<^verbatim>\<open>src/unnamed/part_007\<close>
  lines 147 to 181).
\<close>

definition deleteAuthor_with :: "string \<Rightarrow> store \<Rightarrow> idarg \<Rightarrow> store \<times> unit response" where
  "deleteAuthor_with tail st i =
     (case Author_findById (authors st) i of
        Inl e \<Rightarrow> (st, server_error e)
      | Inr None \<Rightarrow> (st, failure 404 ''Author not found'')
      | Inr (Some _) \<Rightarrow>
          (case Book_countDocuments_author (books st) i of
             Inl e \<Rightarrow> (st, server_error e)
           | Inr booksCount \<Rightarrow>
               if booksCount > 0 then
                 (st, failure 400
                        (''Cannot delete author with '' @ decimal booksCount @ tail))
               else
                 (case Author_findByIdAndDelete (authors st) i of
                    Inl e \<Rightarrow> (st, server_error e)
                  | Inr as \<Rightarrow> (st\<lparr> authors := as \<rparr>, ok_message ''Author deleted successfully''))))"

definition deleteAuthor_basic :: "store \<Rightarrow> idarg \<Rightarrow> store \<times> unit response" where
  "deleteAuthor_basic = deleteAuthor_with '' associated books. Delete books first.''"

definition deleteAuthor_ext :: "store \<Rightarrow> idarg \<Rightarrow> store \<times> unit response" where
  "deleteAuthor_ext =
     deleteAuthor_with
       '' associated books. Delete books first or reassign them to another author.''"

subsection \<open>\<open>Book.create\<close> and \<open>createBook\<close>\<close>

text \<open>
  The body of a create request, field by field: absent (\<open>None\<close>, \<open>NoId\<close>) or a value of the
  type of the schema path. Values of another JSON type, and \<^verbatim>\<open>null\<close>, are not modelled.
\<close>

record book_payload =
  p_title :: "string option"
  p_author :: idarg
  p_isbn :: "string option"
  p_publishedDate :: "nat option"
  p_publisher :: "string option"
  p_pages :: "rat option"
  p_genre :: "string option"
  p_description :: "string option"
  p_language :: "string option"
  p_price :: "rat option"
  p_inStock :: "bool option"
  p_rating :: "rat option"
  p_category :: idarg

definition genres :: "string list" where
  "genres = [''Fiction'', ''Non-Fiction'', ''Science Fiction'', ''Fantasy'', ''Mystery'',
     ''Thriller'', ''Romance'', ''Biography'', ''History'', ''Science'', ''Self-Help'', ''Other'']"

text \<open>
  The validator \<^verbatim>\<open>match: /^(?:\d{10}|\d{13})$/\<close>; Mongoose does not apply a \<open>match\<close>
  validator to the empty string.
\<close>

definition isbn_ok :: "string \<Rightarrow> bool" where
  "isbn_ok s = (s = [] \<or> ((length s = 10 \<or> length s = 13) \<and> list_all is_digit s))"

text \<open>
  The validators of the Book schema on the cast document. The flag says whether the schema
  is the extended one, which has the category path.
\<close>

definition payload_valid :: "bool \<Rightarrow> book_payload \<Rightarrow> bool" where
  "payload_valid extended p =
     ((case p_title p of None \<Rightarrow> False | Some t \<Rightarrow> trim t \<noteq> []) \<and>
      (case p_author p of GoodId _ \<Rightarrow> True | _ \<Rightarrow> False) \<and>
      (case p_isbn p of None \<Rightarrow> True | Some i \<Rightarrow> isbn_ok (trim i)) \<and>
      (case p_pages p of None \<Rightarrow> True | Some n \<Rightarrow> 1 \<le> n) \<and>
      (case p_genre p of None \<Rightarrow> True | Some g \<Rightarrow> g \<in> set genres) \<and>
      (case p_price p of None \<Rightarrow> True | Some x \<Rightarrow> 0 \<le> x) \<and>
      (case p_rating p of None \<Rightarrow> True | Some r \<Rightarrow> 0 \<le> r \<and> r \<le> 5) \<and>
      (extended \<longrightarrow> p_category p \<noteq> BadId))"

definition or_default :: "'a \<Rightarrow> 'a option \<Rightarrow> 'a" where
  "or_default d v = (case v of None \<Rightarrow> d | Some x \<Rightarrow> x)"

text \<open>The document Mongoose builds: setters, defaults, a new id and the timestamps.\<close>

definition new_Book :: "bool \<Rightarrow> objectId \<Rightarrow> nat \<Rightarrow> objectId \<Rightarrow> book_payload \<Rightarrow> Book" where
  "new_Book extended fresh now a p =
     \<lparr> book_id = fresh,
       title = trim (or_default [] (p_title p)),
       author = a,
       isbn = map_option trim (p_isbn p),
       publishedDate = p_publishedDate p,
       publisher = map_option trim (p_publisher p),
       pages = p_pages p,
       genre = or_default ''Other'' (p_genre p),
       description = map_option trim (p_description p),
       language = trim (or_default ''English'' (p_language p)),
       price = p_price p,
       inStock = or_default True (p_inStock p),
       rating = Some (or_default 0 (p_rating p)),
       category = (case p_category p of GoodId c \<Rightarrow> (if extended then Some c else None) | _ \<Rightarrow> None),
       createdAt = now,
       updatedAt = now \<rparr>"

text \<open>
  \<^verbatim>\<open>Book.create(req.body)\<close>: validation, then the insert, which the unique indexes on
  \<^verbatim>\<open>_id\<close> and on \<^verbatim>\<open>isbn\<close> (\<^verbatim>\<open>unique: true\<close>, not sparse: a missing isbn is indexed as
  null) refuse with error code 11000.
\<close>

definition Book_create ::
  "bool \<Rightarrow> Book list \<Rightarrow> objectId \<Rightarrow> nat \<Rightarrow> book_payload \<Rightarrow> store_error + (Book list \<times> Book)" where
  "Book_create extended bs fresh now p =
     (case p_author p of
        GoodId a \<Rightarrow>
          if \<not> payload_valid extended p then Inl ValidationError
          else
            (let b = new_Book extended fresh now a p
             in if list_ex (\<lambda>b'. book_id b' = book_id b \<or> isbn b' = isbn b) bs
                then Inl DuplicateKey
                else Inr (bs @ [b], b))
      | _ \<Rightarrow> Inl ValidationError)"

definition Category_findById :: "Category list \<Rightarrow> idarg \<Rightarrow> store_error + Category option" where
  "Category_findById cs i =
     (case i of
        NoId \<Rightarrow> Inr None
      | BadId \<Rightarrow> Inl CastError
      | GoodId k \<Rightarrow> Inr (find (\<lambda>c. category_id c = k) cs))"

text \<open>The \<^verbatim>\<open>catch\<close> block of \<open>createBook\<close>, the same in both variants.\<close>

definition createBook_catch :: "store_error \<Rightarrow> Book response" where
  "createBook_catch e =
     (if e = DuplicateKey then failure 400 ''Book with this ISBN already exists''
      else failure_with 400 ''Failed to create book'' e)"

definition created :: "Book \<Rightarrow> Book response" where
  "created b = (201, (envelope0 True)\<lparr> data := Some b \<rparr>)"

text \<open>
  \<^verbatim>\<open>src/controllers/books.controller.js\<close> lines 78 to 109. The new id and the time are
  supplied by the environment.
\<close>

definition createBook_basic ::
  "store \<Rightarrow> objectId \<Rightarrow> nat \<Rightarrow> book_payload \<Rightarrow> store \<times> Book response" where
  "createBook_basic st fresh now body =
     (case Author_findById (authors st) (p_author body) of
        Inl e \<Rightarrow> (st, createBook_catch e)
      | Inr None \<Rightarrow> (st, failure 404 ''Author not found'')
      | Inr (Some _) \<Rightarrow>
          (case Book_create False (books st) fresh now body of
             Inl e \<Rightarrow> (st, createBook_catch e)
           | Inr (bs, book) \<Rightarrow> (st\<lparr> books := bs \<rparr>, created book)))"

text \<open>\<^verbatim>\<open>src/unnamed/part_006\<close> lines 89 to 131, with the check of the category.\<close>

definition createBook_ext ::
  "store \<Rightarrow> objectId \<Rightarrow> nat \<Rightarrow> book_payload \<Rightarrow> store \<times> Book response" where
  "createBook_ext st fresh now body =
     (case Author_findById (authors st) (p_author body) of
        Inl e \<Rightarrow> (st, createBook_catch e)
      | Inr None \<Rightarrow> (st, failure 404 ''Author not found'')
      | Inr (Some _) \<Rightarrow>
          (let create =
                 (case Book_create True (books st) fresh now body of
                    Inl e \<Rightarrow> (st, createBook_catch e)
                  | Inr (bs, book) \<Rightarrow> (st\<lparr> books := bs \<rparr>, created book))
           in if p_category body \<noteq> NoId then
                (case Category_findById (categories st) (p_category body) of
                   Inl e \<Rightarrow> (st, createBook_catch e)
                 | Inr None \<Rightarrow> (st, failure 404 ''Category not found'')
                 | Inr (Some _) \<Rightarrow> create)
              else create))"

subsection \<open>\<open>updateBookRating\<close>\<close>

definition Book_findById :: "Book list \<Rightarrow> idarg \<Rightarrow> store_error + Book option" where
  "Book_findById bs i =
     (case i of
        NoId \<Rightarrow> Inr None
      | BadId \<Rightarrow> Inl CastError
      | GoodId k \<Rightarrow> Inr (find (\<lambda>b. book_id b = k) bs))"

fun update_first :: "('a \<Rightarrow> bool) \<Rightarrow> ('a \<Rightarrow> 'a) \<Rightarrow> 'a list \<Rightarrow> ('a list \<times> 'a) option" where
  "update_first P f [] = None"
| "update_first P f (x # xs) =
     (if P x then Some (f x # xs, f x)
      else map_option (\<lambda>(ys, y). (x # ys, y)) (update_first P f xs))"

text \<open>
  Mongoose's cast of a value to the type Number: \<^verbatim>\<open>null\<close> stays \<^verbatim>\<open>null\<close> (\<open>None\<close>), the
  empty string becomes \<^verbatim>\<open>null\<close>, a boolean or any other string goes through \<^verbatim>\<open>Number\<close>,
  and \<^verbatim>\<open>NaN\<close> raises a CastError.
\<close>

definition castNumber :: "runtime \<Rightarrow> json \<Rightarrow> store_error + jsnum option" where
  "castNumber rt v =
     (case v of
        JNull \<Rightarrow> Inr None
      | JBool b \<Rightarrow> Inr (Some (Fin (if b then 1 else 0)))
      | JNumber r \<Rightarrow> Inr (Some (Fin r))
      | JString s \<Rightarrow>
          if s = [] then Inr None
          else if StringToNumber rt s = NaN then Inl CastError
          else Inr (Some (StringToNumber rt s)))"

text \<open>
  The validators \<^verbatim>\<open>min: 0\<close> and \<^verbatim>\<open>max: 5\<close> of the path \<open>rating\<close>, which is not required:
  they accept \<^verbatim>\<open>null\<close>. The result is the value to store.
\<close>

definition validate_rating :: "jsnum option \<Rightarrow> store_error + rat option" where
  "validate_rating v =
     (case v of
        None \<Rightarrow> Inr None
      | Some (Fin r) \<Rightarrow> if 0 \<le> r \<and> r \<le> 5 then Inr (Some r) else Inl ValidationError
      | Some _ \<Rightarrow> Inl ValidationError)"

text \<open>
  \<^verbatim>\<open>Book.findByIdAndUpdate(id, { rating }, { new: true, runValidators: true })\<close>: the id and
  the update are cast, the validators of the rating path run on the update, the first
  document with the id is changed, and the changed document is returned (\<open>None\<close> when there
  is none).
\<close>

definition Book_findByIdAndUpdate_rating ::
  "runtime \<Rightarrow> Book list \<Rightarrow> nat \<Rightarrow> idarg \<Rightarrow> json \<Rightarrow> store_error + (Book list \<times> Book) option" where
  "Book_findByIdAndUpdate_rating rt bs now i v =
     (case i of
        NoId \<Rightarrow> Inr None
      | BadId \<Rightarrow> Inl CastError
      | GoodId k \<Rightarrow>
          (case castNumber rt v of
             Inl e \<Rightarrow> Inl e
           | Inr c \<Rightarrow>
               (case validate_rating c of
                  Inl e \<Rightarrow> Inl e
                | Inr r \<Rightarrow>
                    Inr (update_first (\<lambda>b. book_id b = k)
                           (\<lambda>b. b\<lparr> rating := r, updatedAt := now \<rparr>) bs))))"

text \<open>
  \<^verbatim>\<open>src/unnamed/part_006\<close> lines 415 to 451. The rating of the body is absent (\<open>None\<close>,
  \<^verbatim>\<open>undefined\<close>) or a JSON value; the comparisons of the guard convert it to a number.
\<close>

definition updateBookRating ::
  "runtime \<Rightarrow> store \<Rightarrow> nat \<Rightarrow> idarg \<Rightarrow> json option
     \<Rightarrow> store \<times> (Book \<times> author_ref option \<times> category_ref option) response" where
  "updateBookRating rt st now i body_rating =
     (case body_rating of
        None \<Rightarrow> (st, failure 400 ''Rating must be between 0 and 5'')
      | Some v \<Rightarrow>
          if js_less (json_number rt v) (Fin 0) \<or> js_less (Fin 5) (json_number rt v)
          then (st, failure 400 ''Rating must be between 0 and 5'')
          else
            (case Book_findByIdAndUpdate_rating rt (books st) now i v of
               Inl e \<Rightarrow> (st, failure_with 400 ''Failed to update book rating'' e)
             | Inr None \<Rightarrow> (st, failure 404 ''Book not found'')
             | Inr (Some (bs, book)) \<Rightarrow>
                 (st\<lparr> books := bs \<rparr>,
                  (200, (envelope0 True)
                     \<lparr> data := Some (book, populate_author st (author book),
                                      populate_category st (category book)),
                       message := Some ''Book rating updated successfully'' \<rparr>))))"

subsection \<open>\<open>getTopRatedBooksByCategory\<close>\<close>

text \<open>The stages of the aggregation pipeline, \<^verbatim>\<open>src/unnamed/part_006\<close> lines 280 to 340.\<close>

text \<open>\<^verbatim>\<open>{ $match: { rating: { $gt: 0 } } }\<close>: a rating that is \<^verbatim>\<open>null\<close> does not match.\<close>

definition match_rated :: "Book list \<Rightarrow> Book list" where
  "match_rated bs = filter (\<lambda>b. Some 0 < rating b) bs"

text \<open>
  \<^verbatim>\<open>{ $sort: { rating: -1, title: 1 } }\<close>; titles compare by code unit. In the descending
  order of the ratings \<^verbatim>\<open>null\<close> comes after every number.
\<close>

definition rating_descending :: "rat option \<Rightarrow> nat \<times> rat" where
  "rating_descending r = (case r of Some x \<Rightarrow> (0, - x) | None \<Rightarrow> (1, 0))"

definition sort_rating_title :: "Book list \<Rightarrow> Book list" where
  "sort_rating_title bs = sort_key (\<lambda>b. (rating_descending (rating b), title b)) bs"

text \<open>The document that \<^verbatim>\<open>$push\<close> builds for a book.\<close>

record pushed_book =
  pb_id :: objectId
  pb_title :: string
  pb_author :: objectId
  pb_rating :: "rat option"
  pb_genre :: string
  pb_price :: "rat option"
  pb_inStock :: bool
  pb_publishedDate :: "nat option"

definition push_book :: "Book \<Rightarrow> pushed_book" where
  "push_book b =
     \<lparr> pb_id = book_id b, pb_title = title b, pb_author = author b, pb_rating = rating b,
       pb_genre = genre b, pb_price = price b, pb_inStock = inStock b,
       pb_publishedDate = publishedDate b \<rparr>"

text \<open>
  \<^verbatim>\<open>{ $group: { _id: '$category', books: { $push: ... } } }\<close>: one group for each value of
  the category (a missing category is the key null), its array in the order of the incoming
  documents. MongoDB leaves the order of the groups open; the model takes the order of
  \<open>remdups\<close>.
\<close>

definition group_by_category :: "Book list \<Rightarrow> (objectId option \<times> pushed_book list) list" where
  "group_by_category bs =
     map (\<lambda>k. (k, map push_book (filter (\<lambda>b. category b = k) bs))) (remdups (map category bs))"

text \<open>\<^verbatim>\<open>{ $project: { _id: 1, books: { $slice: ['$books', 10] } } }\<close>\<close>

definition slice_10 :: "(objectId option \<times> pushed_book list) \<Rightarrow> (objectId option \<times> pushed_book list)" where
  "slice_10 g = (fst g, take 10 (snd g))"

record 'b category_group =
  categoryId :: "objectId option"
  categoryName :: "string option"
  categorySlug :: "string option"
  group_books :: "'b list"

text \<open>
  \<^verbatim>\<open>$lookup\<close> from the categories on \<^verbatim>\<open>_id\<close>, \<^verbatim>\<open>$unwind\<close> with
  \<^verbatim>\<open>preserveNullAndEmptyArrays\<close>, and the \<^verbatim>\<open>$project\<close> that names the fields: one group
  for each Category found, and a group without name and slug if none is found.
\<close>

definition lookup_unwind_project ::
  "Category list \<Rightarrow> (objectId option \<times> pushed_book list) \<Rightarrow> pushed_book category_group list" where
  "lookup_unwind_project cs g =
     (case filter (\<lambda>c. Some (category_id c) = fst g) cs of
        [] \<Rightarrow> [\<lparr> categoryId = fst g, categoryName = None, categorySlug = None,
                 group_books = snd g \<rparr>]
      | categoryInfo \<Rightarrow>
          map (\<lambda>c. \<lparr> categoryId = fst g, categoryName = Some (category_name c),
                     categorySlug = Some (category_slug c), group_books = snd g \<rparr>)
            categoryInfo)"

text \<open>
  \<^verbatim>\<open>{ $sort: { categoryName: 1 } }\<close>: a group without a name sorts as null, before every
  name (the order of \<open>string option\<close> with \<open>None\<close> least).
\<close>

definition sort_categoryName :: "'b category_group list \<Rightarrow> 'b category_group list" where
  "sort_categoryName gs = sort_key categoryName gs"

definition aggregate_top_rated :: "store \<Rightarrow> pushed_book category_group list" where
  "aggregate_top_rated st =
     sort_categoryName
       (concat (map (lookup_unwind_project (categories st))
          (map slice_10 (group_by_category (sort_rating_title (match_rated (books st)))))))"

text \<open>
  \<^verbatim>\<open>Book.populate(category.books, { path: 'author', select: 'name nationality' })\<close>: the
  author of each pushed book is looked up; the model keeps the pushed document beside it.
\<close>

definition populate_group ::
  "store \<Rightarrow> pushed_book category_group \<Rightarrow> (pushed_book \<times> author_ref option) category_group" where
  "populate_group st g =
     \<lparr> categoryId = categoryId g, categoryName = categoryName g, categorySlug = categorySlug g,
       group_books = map (\<lambda>b. (b, populate_author st (pb_author b))) (group_books g) \<rparr>"

text \<open>
  Lines 351 to 355: the first group whose \<open>categoryId\<close> is null gets the name
  \<^verbatim>\<open>'Uncategorized'\<close> and the slug \<^verbatim>\<open>'uncategorized'\<close>.
\<close>

fun name_uncategorized :: "'b category_group list \<Rightarrow> 'b category_group list" where
  "name_uncategorized [] = []"
| "name_uncategorized (g # gs) =
     (if categoryId g = None
      then g\<lparr> categoryName := Some ''Uncategorized'', categorySlug := Some ''uncategorized'' \<rparr> # gs
      else g # name_uncategorized gs)"

definition top_rated_groups ::
  "store \<Rightarrow> (pushed_book \<times> author_ref option) category_group list" where
  "top_rated_groups st =
     name_uncategorized (map (populate_group st) (aggregate_top_rated st))"

text \<open>\<^verbatim>\<open>src/unnamed/part_006\<close> lines 278 to 369.\<close>

definition getTopRatedBooksByCategory ::
  "store \<Rightarrow> (pushed_book \<times> author_ref option) category_group list response" where
  "getTopRatedBooksByCategory st =
     (let topBooksByCategory = top_rated_groups st
      in (200, (envelope0 True)
            \<lparr> data := Some topBooksByCategory, count := Some (length topBooksByCategory) \<rparr>))"

subsection \<open>A catalogue and requests for the examples\<close>

text \<open>
  An example runtime. Its conversions read a decimal numeral as JavaScript does, as the
  nearest double (a tie goes to the even one); unlike JavaScript they read no other numeric
  literal (a sign, a fraction, an exponent, white space around the digits): for every other
  string they give \<^verbatim>\<open>NaN\<close>. Its text search is the equality with the title or the
  description, its patterns match by equality, and the pattern \<^verbatim>\<open>(\<close> does not compile.
\<close>

fun bit_length :: "nat \<Rightarrow> nat" where
  "bit_length n = (if n = 0 then 0 else Suc (bit_length (n div 2)))"

declare bit_length.simps [simp del]

definition nearest_double :: "nat \<Rightarrow> jsnum" where
  "nearest_double n =
     (if n < 2 ^ 53 then Fin (of_nat n)
      else
        (let e = bit_length n - 53;
             q = n div 2 ^ e;
             r = n mod 2 ^ e;
             m = (if 2 ^ e < 2 * r \<or> (2 * r = 2 ^ e \<and> odd q) then q + 1 else q) * 2 ^ e
         in if m < 2 ^ 1024 then Fin (of_nat m) else PosInf))"

definition numeral_number :: "string \<Rightarrow> jsnum" where
  "numeral_number s = (case decimal_numeral s of None \<Rightarrow> NaN | Some n \<Rightarrow> nearest_double (nat n))"

definition example_runtime :: runtime where
  "example_runtime =
     \<lparr> StringToNumber = numeral_number,
       StringParseInt = numeral_number,
       parseFloat = numeral_number,
       textSearch = (\<lambda>s t d. s = t \<or> d = Some s),
       regexTest = (\<lambda>p. if p = ''('' then None else Some (\<lambda>s. s = p)),
       strictQuery = True \<rparr>"

definition example_author :: "objectId \<Rightarrow> string \<Rightarrow> string \<Rightarrow> Author" where
  "example_author i n c =
     \<lparr> author_id = i, name = n, biography = None, birthDate = None, nationality = Some c,
       email = None, website = None, author_createdAt = 0, author_updatedAt = 0 \<rparr>"

definition example_book ::
  "objectId \<Rightarrow> string \<Rightarrow> objectId \<Rightarrow> string \<Rightarrow> string \<Rightarrow> rat \<Rightarrow> objectId option \<Rightarrow> nat \<Rightarrow> Book" where
  "example_book i t a n g r c ts =
     \<lparr> book_id = i, title = t, author = a, isbn = Some n, publishedDate = None,
       publisher = None, pages = None, genre = g, description = None, language = ''English'',
       price = None, inStock = True, rating = Some r, category = c, createdAt = ts,
       updatedAt = ts \<rparr>"

text \<open>
  Three authors: the first has one book, the second three, the third none. One category;
  the books of the second author have none.
\<close>

definition catalogue :: store where
  "catalogue =
     \<lparr> authors =
         [example_author 1 ''J.R.R. Tolkien'' ''British'',
          example_author 2 ''Frank Herbert'' ''American'',
          example_author 3 ''Jane Austen'' ''British''],
       books =
         [example_book 11 ''The Hobbit'' 1 ''9780261102217'' ''Fantasy'' (9 / 2) (Some 21) 100,
          example_book 12 ''Dune'' 2 ''9780441013593'' ''Science Fiction'' 4 None 101,
          example_book 13 ''Dune Messiah'' 2 ''9780441172696'' ''Science Fiction'' 4 None 102,
          example_book 14 ''Children of Dune'' 2 ''9780441104024'' ''Science Fiction'' 0 None 103],
       categories =
         [\<lparr> category_id = 21, category_name = ''Classics'', category_slug = ''classics'' \<rparr>] \<rparr>"

definition no_params :: books_request where
  "no_params =
     \<lparr> qs_page = None, qs_limit = None, qs_genre = None, qs_inStock = None, qs_search = None,
       qs_category = NoId, qs_minRating = None, qs_maxRating = None \<rparr>"

definition no_author_params :: authors_request where
  "no_author_params =
     \<lparr> aq_page = None, aq_limit = None, aq_search = None, aq_nationality = None,
       aq_sortBy = None, aq_order = None \<rparr>"

definition empty_payload :: book_payload where
  "empty_payload =
     \<lparr> p_title = None, p_author = NoId, p_isbn = None, p_publishedDate = None,
       p_publisher = None, p_pages = None, p_genre = None, p_description = None,
       p_language = None, p_price = None, p_inStock = None, p_rating = None,
       p_category = NoId \<rparr>"

text \<open>The example of the spec: a second POST of Dune with the isbn of the stored book.\<close>

definition dune_again :: book_payload where
  "dune_again =
     empty_payload\<lparr> p_title := Some ''Dune'', p_author := GoodId 2,
       p_isbn := Some ''9780441013593'', p_rating := Some 4 \<rparr>"

subsection \<open>The filters in the words of the specification\<close>

text \<open>
  Modelled from the spec: the filter of the book list, read off the request. A parameter
  that is absent or empty adds no condition. Otherwise the genre and the category are
  those of the Book, the stock status is whether the parameter is the string \<^verbatim>\<open>true\<close>, the
  rating is a number at least \<open>minRating\<close> and at most \<open>maxRating\<close>, both read as floats,
  and \<open>search\<close> is the full-text match on title and description.
\<close>

definition book_selected :: "runtime \<Rightarrow> books_request \<Rightarrow> Book \<Rightarrow> bool" where
  "book_selected rt req b =
     ((case qs_genre req of None \<Rightarrow> True | Some g \<Rightarrow> g = [] \<or> genre b = g) \<and>
      (case qs_category req of GoodId c \<Rightarrow> category b = Some c | _ \<Rightarrow> True) \<and>
      (case qs_inStock req of None \<Rightarrow> True | Some v \<Rightarrow> inStock b = (v = ''true'')) \<and>
      (case qs_minRating req of None \<Rightarrow> True
       | Some s \<Rightarrow>
           s = [] \<or>
           (case (parseFloat rt s, rating b) of
              (Fin x, Some r) \<Rightarrow> x \<le> r
            | (NegInf, Some r) \<Rightarrow> True
            | _ \<Rightarrow> False)) \<and>
      (case qs_maxRating req of None \<Rightarrow> True
       | Some s \<Rightarrow>
           s = [] \<or>
           (case (parseFloat rt s, rating b) of
              (Fin x, Some r) \<Rightarrow> r \<le> x
            | (PosInf, Some r) \<Rightarrow> True
            | _ \<Rightarrow> False)) \<and>
      (case qs_search req of None \<Rightarrow> True
       | Some s \<Rightarrow> s = [] \<or> textSearch rt s (title b) (description b)))"

text \<open>
  Modelled from the spec: the filter of the author list, read off the request. A parameter
  that is absent or empty adds no condition. Otherwise the nationality of the Author is
  the parameter without the white space around it, and \<open>search\<close> is a case-insensitive
  pattern that matches the name.
\<close>

definition author_selected :: "runtime \<Rightarrow> authors_request \<Rightarrow> Author \<Rightarrow> bool" where
  "author_selected rt req a =
     ((case aq_nationality req of None \<Rightarrow> True
       | Some n \<Rightarrow> n = [] \<or> nationality a = Some (trim n)) \<and>
      (case aq_search req of None \<Rightarrow> True
       | Some s \<Rightarrow>
           s = [] \<or> (case regexTest rt s of None \<Rightarrow> False | Some re \<Rightarrow> re (name a))))"

subsection \<open>The two variants of \<open>getAllAuthors\<close> in one form\<close>

text \<open>
  The form that the two variants of \<open>getAllAuthors\<close> share when the extended one sorts by
  name ascending; \<open>cur\<close> is the value of \<open>currentPage\<close>.
\<close>

definition authors_page ::
  "runtime \<Rightarrow> store \<Rightarrow> authors_request \<Rightarrow> json \<Rightarrow> Author list response option" where
  "authors_page rt st req cur =
     (case safe_integer (ToNumber rt (with_default 10 (aq_limit req))) of
        None \<Rightarrow> None
      | Some l \<Rightarrow>
          (case safe_integer (ToNumber rt (with_default 1 (aq_page req))) of
             None \<Rightarrow> None
           | Some p \<Rightarrow>
               if 1 \<le> l \<and> 1 \<le> p \<and> (p - 1) * l \<le> 9007199254740992 then
                 Some (case Author_find rt (authors st) (build_author_query req) of
                         Inl e \<Rightarrow> server_error e
                       | Inr found \<Rightarrow>
                           page_envelope
                             (skip_limit ((p - 1) * l) l
                                (sort_by_path (\<lambda>a. BString (name a)) 1 found))
                             (Math_ceil_div (length found) l) cur (length found))
               else None))"

text \<open>\<^verbatim>\<open>GET /api/authors?page=2&limit=1\<close>\<close>

definition page_two :: authors_request where
  "page_two = no_author_params\<lparr> aq_page := Some ''2'', aq_limit := Some ''1'' \<rparr>"

text \<open>\<^verbatim>\<open>GET /api/authors?nationality=%20British%20&page=2&limit=1\<close>\<close>

definition british_page_two :: authors_request where
  "british_page_two = page_two\<lparr> aq_nationality := Some '' British '' \<rparr>"

text \<open>\<^verbatim>\<open>GET /api/books?page=9007199254740993&limit=1\<close>\<close>

definition page_beyond_safe :: books_request where
  "page_beyond_safe = no_params\<lparr> qs_page := Some ''9007199254740993'', qs_limit := Some ''1'' \<rparr>"

text \<open>\<^verbatim>\<open>GET /api/books?genre=Fantasy\<close> and \<^verbatim>\<open>GET /api/books?genre=Science%20Fiction&page=2&limit=2\<close>\<close>

definition fantasy_request :: books_request where
  "fantasy_request = no_params\<lparr> qs_genre := Some ''Fantasy'' \<rparr>"

definition science_fiction_page_two :: books_request where
  "science_fiction_page_two =
     no_params\<lparr> qs_genre := Some ''Science Fiction'', qs_page := Some ''2'', qs_limit := Some ''2'' \<rparr>"

text \<open>
  The order of the books inside a group: rating descending, ties by title ascending. In
  the order of the ratings \<^verbatim>\<open>null\<close> (\<open>None\<close>) is below every number.
\<close>

definition rating_then_title :: "pushed_book \<Rightarrow> pushed_book \<Rightarrow> bool" where
  "rating_then_title x y =
     (pb_rating y < pb_rating x \<or> (pb_rating y = pb_rating x \<and> pb_title x \<le> pb_title y))"

text \<open>
  The name under which the pipeline sorts a group: the name of the Category found for it,
  none for the group of the books without category.
\<close>

definition sorted_name :: "'b category_group \<Rightarrow> string option" where
  "sorted_name g = (if categoryId g = None then None else categoryName g)"

text \<open>Eleven rated books of one author, all without category.\<close>

definition eleven_rated :: store where
  "eleven_rated =
     \<lparr> authors = [example_author 1 ''J.R.R. Tolkien'' ''British''],
       books =
         [example_book 101 ''Volume A'' 1 ''9780000000101'' ''Fantasy'' 5 None 1,
          example_book 102 ''Volume B'' 1 ''9780000000102'' ''Fantasy'' 5 None 2,
          example_book 103 ''Volume C'' 1 ''9780000000103'' ''Fantasy'' 5 None 3,
          example_book 104 ''Volume D'' 1 ''9780000000104'' ''Fantasy'' 5 None 4,
          example_book 105 ''Volume E'' 1 ''9780000000105'' ''Fantasy'' 5 None 5,
          example_book 106 ''Volume F'' 1 ''9780000000106'' ''Fantasy'' 5 None 6,
          example_book 107 ''Volume G'' 1 ''9780000000107'' ''Fantasy'' 5 None 7,
          example_book 108 ''Volume H'' 1 ''9780000000108'' ''Fantasy'' 5 None 8,
          example_book 109 ''Volume I'' 1 ''9780000000109'' ''Fantasy'' 5 None 9,
          example_book 110 ''Volume J'' 1 ''9780000000110'' ''Fantasy'' 5 None 10,
          example_book 111 ''Volume K'' 1 ''9780000000111'' ''Fantasy'' 1 None 11],
       categories = [] \<rparr>"

section \<open>Properties\<close>

subsection \<open>Lists, numerals\<close>

lemma find_delete_first:
  "distinct (map f xs) \<Longrightarrow> find (\<lambda>a. f a = k) (delete_first (\<lambda>a. f a = k) xs) = None"
proof (induction xs)
  case Nil
  then show ?case by simp
next
  case (Cons x xs)
  show ?case
  proof (cases "f x = k")
    case True
    with Cons.prems have "k \<notin> f ` set xs" by auto
    then have "find (\<lambda>a. f a = k) xs = None" by (auto simp: find_None_iff)
    with True show ?thesis by simp
  next
    case False
    with Cons show ?thesis by simp
  qed
qed

lemma set_delete_first:
  "distinct (map f xs) \<Longrightarrow> set (delete_first (\<lambda>a. f a = k) xs) = {a \<in> set xs. f a \<noteq> k}"
proof (induction xs)
  case Nil
  then show ?case by simp
next
  case (Cons x xs)
  show ?case
  proof (cases "f x = k")
    case True
    with Cons.prems have "\<forall>a \<in> set xs. f a \<noteq> k" by (auto simp: image_iff)
    with True show ?thesis by auto
  next
    case False
    with Cons show ?thesis by auto
  qed
qed

lemma digits_value_snoc: "digits_value (s @ [c]) = 10 * digits_value s + digit_value c"
  by (simp add: digits_value_def)

lemma digit_char_props: "d < 10 \<Longrightarrow> is_digit (digit_char d) \<and> digit_value (digit_char d) = d"
proof -
  assume "d < 10"
  then have "d \<in> {0,1,2,3,4,5,6,7,8,9}" by auto
  then show ?thesis
    by (auto simp: digit_char_def is_digit_def digit_value_def)
qed

lemma decimal_digits:
  "list_all is_digit (decimal n) \<and> decimal n \<noteq> [] \<and> digits_value (decimal n) = n"
proof (induction n rule: decimal.induct)
  case (1 n)
  show ?case
  proof (cases "n < 10")
    case True
    then show ?thesis
      using digit_char_props [of n] by (simp add: digits_value_def decimal.simps [of n])
  next
    case False
    have m: "n mod 10 < 10" by simp
    from False 1 have ih: "list_all is_digit (decimal (n div 10))"
      "digits_value (decimal (n div 10)) = n div 10"
      by auto
    have "decimal n = decimal (n div 10) @ [digit_char (n mod 10)]"
      using False by (subst decimal.simps) simp
    then show ?thesis
      using ih digit_char_props [OF m] by (simp add: digits_value_snoc)
  qed
qed

text \<open>The count rendered into a message is read back from it as the same number.\<close>

lemma decimal_numeral_decimal: "decimal_numeral (decimal n) = Some (int n)"
  using decimal_digits [of n] by (simp add: decimal_numeral_def)

subsection \<open>The stock filter of the query builder\<close>

text \<open>
  C8, as amended. Both variants of \<open>getAllBooks\<close> add a stock filter whenever the parameter
  \<open>inStock\<close> is present, and none when it is absent. The filter is \<open>true\<close> exactly for the
  literal string \<^verbatim>\<open>"true"\<close> and \<open>false\<close> for every other present value, \<^verbatim>\<open>"false"\<close> included;
  a book that matches the query then has that stock status.
\<close>

theorem inStock_filter:
  "q_inStock (build_query_basic req) = map_option (\<lambda>v. v = ''true'') (qs_inStock req) \<and>
   q_inStock (build_query_ext rt req) = map_option (\<lambda>v. v = ''true'') (qs_inStock req) \<and>
   (\<forall>v. qs_inStock req = Some v \<and> book_matches rt (build_query_ext rt req) b
        \<longrightarrow> inStock b = (v = ''true''))"
  by (auto simp: build_query_basic_def build_query_ext_def book_matches_def split: option.splits)

theorem inStock_filter_witness:
  "qs_inStock (no_params\<lparr> qs_inStock := Some ''true'' \<rparr>) = Some ''true'' \<and>
   q_inStock (build_query_ext example_runtime (no_params\<lparr> qs_inStock := Some ''true'' \<rparr>))
     = Some True \<and>
   book_matches example_runtime
     (build_query_ext example_runtime (no_params\<lparr> qs_inStock := Some ''true'' \<rparr>))
     (example_book 12 ''Dune'' 2 ''9780441013593'' ''Science Fiction'' 4 None 101) \<and>
   inStock (example_book 12 ''Dune'' 2 ''9780441013593'' ''Science Fiction'' 4 None 101)"
proof -
  let ?req = "no_params\<lparr> qs_inStock := Some ''true'' \<rparr>"
  let ?dune = "example_book 12 ''Dune'' 2 ''9780441013593'' ''Science Fiction'' 4 None 101"
  have p: "qs_inStock ?req = Some ''true''" by simp
  have m: "book_matches example_runtime (build_query_ext example_runtime ?req) ?dune"
    by (simp add: book_matches_def build_query_ext_def no_params_def when_truthy_def
        example_book_def)
  note t = inStock_filter [of ?req example_runtime ?dune]
  from t have "q_inStock (build_query_ext example_runtime ?req) = Some True"
    by (simp add: p)
  moreover from t [THEN conjunct2, THEN conjunct2, rule_format, of "''true''"] p m
  have "inStock ?dune" by blast
  ultimately show ?thesis using p m by blast
qed

text \<open>
  The claim as stated fails: for \<^verbatim>\<open>?inStock=yes\<close>, a present value that is neither
  \<^verbatim>\<open>"true"\<close> nor \<^verbatim>\<open>"false"\<close>, both builders produce the boolean filter \<open>false\<close>.
\<close>

theorem inStock_filter_counterexample:
  "q_inStock (build_query_basic (no_params\<lparr> qs_inStock := Some ''yes'' \<rparr>)) = Some False \<and>
   q_inStock (build_query_ext example_runtime (no_params\<lparr> qs_inStock := Some ''yes'' \<rparr>))
     = Some False"
  by (simp add: build_query_basic_def build_query_ext_def no_params_def)

subsection \<open>The author search without a query\<close>

text \<open>
  C9. When the parameter \<open>query\<close> of \<^verbatim>\<open>GET /api/authors/search\<close> is absent, the response
  is 400 with \<open>success\<close> false and the message \<^verbatim>\<open>Search query is required\<close>, and the
  handler has made no call on the store.
\<close>

theorem searchAuthors_query_required:
  assumes "sq_query req = None"
  shows "searchAuthors rt st req =
           Some ((400, (envelope0 False)\<lparr> message := Some ''Search query is required'' \<rparr>), [])"
  using assms by (simp add: searchAuthors_def when_truthy_def failure_def)

theorem searchAuthors_query_required_witness:
  "searchAuthors example_runtime catalogue
      \<lparr> sq_query = None, sq_nationality = Some ''British'', sq_limit = Some ''5'' \<rparr> =
     Some ((400, (envelope0 False)\<lparr> message := Some ''Search query is required'' \<rparr>), [])"
  using searchAuthors_query_required
    [of "\<lparr> sq_query = None, sq_nationality = Some ''British'', sq_limit = Some ''5'' \<rparr>"
        example_runtime catalogue]
  by simp

subsection \<open>Deleting an author\<close>

text \<open>
  C2. For a delete request on an existing Author, in a store whose Author ids are unique:
  if \<open>n > 0\<close> Books reference the Author, both variants answer 400 with a message that
  carries \<open>n\<close> in decimal, and the store is unchanged; if no Book references the Author,
  both variants answer with the success message, the Author is no longer found by its id,
  and nothing else in the store has changed.
\<close>

theorem deleteAuthor_guard:
  assumes "Author_findById (authors st) i = Inr (Some a)"
    and "Book_countDocuments_author (books st) i = Inr n"
    and "distinct (map author_id (authors st))"
  shows "(0 < n \<longrightarrow>
            deleteAuthor_basic st i =
              (st, failure 400 (''Cannot delete author with '' @ decimal n @
                                '' associated books. Delete books first.'')) \<and>
            deleteAuthor_ext st i =
              (st, failure 400 (''Cannot delete author with '' @ decimal n @
                     '' associated books. Delete books first or reassign them to another author.''))) \<and>
         (n = 0 \<longrightarrow>
            (\<exists>st'. deleteAuthor_basic st i = (st', ok_message ''Author deleted successfully'') \<and>
                   deleteAuthor_ext st i = (st', ok_message ''Author deleted successfully'') \<and>
                   Author_findById (authors st') i = Inr None \<and>
                   set (authors st') = set (authors st) - {a} \<and>
                   books st' = books st \<and> categories st' = categories st))"
proof -
  from assms(1) obtain k where i: "i = GoodId k"
    and f: "find (\<lambda>a. author_id a = k) (authors st) = Some a"
    by (cases i) (auto simp: Author_findById_def)
  from f have ak: "author_id a = k" and ain: "a \<in> set (authors st)"
    by (auto simp: find_Some_iff)
  have del: "Author_findByIdAndDelete (authors st) i =
      Inr (delete_first (\<lambda>a. author_id a = k) (authors st))"
    by (simp add: i Author_findByIdAndDelete_def)
  have gone: "find (\<lambda>a. author_id a = k) (delete_first (\<lambda>a. author_id a = k) (authors st)) = None"
    by (rule find_delete_first [OF assms(3)])
  have rest: "set (delete_first (\<lambda>a. author_id a = k) (authors st)) = set (authors st) - {a}"
  proof -
    have "{x \<in> set (authors st). author_id x \<noteq> k} = set (authors st) - {a}"
      using assms(3) ain ak by (auto simp: distinct_map inj_on_def)
    then show ?thesis by (simp add: set_delete_first [OF assms(3)])
  qed
  have found: "Author_findById (authors st) i = Inr (Some a)" by (rule assms(1))
  have cnt: "Book_countDocuments_author (books st) i = Inr n" by (rule assms(2))
  have pos: "0 < n \<Longrightarrow> deleteAuthor_with tail st i =
      (st, failure 400 (''Cannot delete author with '' @ decimal n @ tail))" for tail
    by (simp add: deleteAuthor_with_def found cnt)
  have zero: "n = 0 \<Longrightarrow> deleteAuthor_with tail st i =
      (st\<lparr> authors := delete_first (\<lambda>a. author_id a = k) (authors st) \<rparr>,
       ok_message ''Author deleted successfully'')" for tail
    using cnt by (simp add: deleteAuthor_with_def found del)
  have after: "Author_findById (delete_first (\<lambda>a. author_id a = k) (authors st)) i = Inr None"
    by (simp add: Author_findById_def i gone)
  show ?thesis
  proof (intro conjI impI)
    assume "0 < n"
    then show "deleteAuthor_basic st i =
              (st, failure 400 (''Cannot delete author with '' @ decimal n @
                                '' associated books. Delete books first.''))"
      by (simp add: deleteAuthor_basic_def pos)
  next
    assume "0 < n"
    then show "deleteAuthor_ext st i =
              (st, failure 400 (''Cannot delete author with '' @ decimal n @
                     '' associated books. Delete books first or reassign them to another author.''))"
      by (simp add: deleteAuthor_ext_def pos)
  next
    assume "n = 0"
    then show "\<exists>st'. deleteAuthor_basic st i = (st', ok_message ''Author deleted successfully'') \<and>
                   deleteAuthor_ext st i = (st', ok_message ''Author deleted successfully'') \<and>
                   Author_findById (authors st') i = Inr None \<and>
                   set (authors st') = set (authors st) - {a} \<and>
                   books st' = books st \<and> categories st' = categories st"
      by (simp add: deleteAuthor_basic_def deleteAuthor_ext_def zero after rest)
  qed
qed

text \<open>
  In the catalogue the second author has three books and the third has none: deleting the
  second is refused with the count 3, deleting the third succeeds.
\<close>

theorem deleteAuthor_guard_witness:
  "deleteAuthor_basic catalogue (GoodId 2) =
     (catalogue,
      failure 400 ''Cannot delete author with 3 associated books. Delete books first.'') \<and>
   (\<exists>st'. deleteAuthor_ext catalogue (GoodId 3) = (st', ok_message ''Author deleted successfully'') \<and>
          Author_findById (authors st') (GoodId 3) = Inr None)"
proof -
  have d: "distinct (map author_id (authors catalogue))"
    by (simp add: catalogue_def example_author_def)
  have f2: "Author_findById (authors catalogue) (GoodId 2) =
      Inr (Some (example_author 2 ''Frank Herbert'' ''American''))"
    by (simp add: catalogue_def example_author_def Author_findById_def)
  have c2: "Book_countDocuments_author (books catalogue) (GoodId 2) = Inr 3"
    by (simp add: catalogue_def example_book_def Book_countDocuments_author_def)
  have f3: "Author_findById (authors catalogue) (GoodId 3) =
      Inr (Some (example_author 3 ''Jane Austen'' ''British''))"
    by (simp add: catalogue_def example_author_def Author_findById_def)
  have c3: "Book_countDocuments_author (books catalogue) (GoodId 3) = Inr 0"
    by (simp add: catalogue_def example_book_def Book_countDocuments_author_def)
  have three: "decimal 3 = ''3''"
    by (simp add: decimal.simps digit_char_def)
  from deleteAuthor_guard [OF f2 c2 d] deleteAuthor_guard [OF f3 c3 d] three
  show ?thesis by auto
qed

subsection \<open>Creating a book for an author that does not exist\<close>

text \<open>
  C3, as amended. A create-book request whose author id is absent, or is an ObjectId that no
  stored Author has, is answered with 404 \<^verbatim>\<open>Author not found\<close> by both variants and leaves the
  store unchanged. A request whose author id does not cast to an ObjectId is answered with
  400 \<^verbatim>\<open>Failed to create book\<close>, and leaves the store unchanged as well.
\<close>

theorem createBook_unknown_author:
  "(p_author body = NoId \<or> (\<exists>a. p_author body = GoodId a \<and> a \<notin> author_id ` set (authors st))
      \<longrightarrow> createBook_basic st fresh now body = (st, failure 404 ''Author not found'') \<and>
          createBook_ext st fresh now body = (st, failure 404 ''Author not found'')) \<and>
   (p_author body = BadId
      \<longrightarrow> createBook_basic st fresh now body =
            (st, failure_with 400 ''Failed to create book'' CastError) \<and>
          createBook_ext st fresh now body =
            (st, failure_with 400 ''Failed to create book'' CastError))"
proof (intro conjI impI)
  assume "p_author body = NoId \<or>
    (\<exists>a. p_author body = GoodId a \<and> a \<notin> author_id ` set (authors st))"
  then have none: "Author_findById (authors st) (p_author body) = Inr None"
    by (auto simp: Author_findById_def find_None_iff)
  show "createBook_basic st fresh now body = (st, failure 404 ''Author not found'')"
    by (simp add: createBook_basic_def none)
  show "createBook_ext st fresh now body = (st, failure 404 ''Author not found'')"
    by (simp add: createBook_ext_def none)
next
  assume "p_author body = BadId"
  then have bad: "Author_findById (authors st) (p_author body) = Inl CastError"
    by (simp add: Author_findById_def)
  show "createBook_basic st fresh now body =
      (st, failure_with 400 ''Failed to create book'' CastError)"
    by (simp add: createBook_basic_def bad createBook_catch_def)
  show "createBook_ext st fresh now body =
      (st, failure_with 400 ''Failed to create book'' CastError)"
    by (simp add: createBook_ext_def bad createBook_catch_def)
qed

theorem createBook_unknown_author_witness:
  "createBook_ext catalogue 15 200
      (empty_payload\<lparr> p_title := Some ''Emma'', p_author := GoodId 9 \<rparr>) =
     (catalogue, failure 404 ''Author not found'') \<and>
   createBook_basic catalogue 15 200
      (empty_payload\<lparr> p_title := Some ''Emma'', p_author := BadId \<rparr>) =
     (catalogue, failure_with 400 ''Failed to create book'' CastError)"
proof -
  have a: "9 \<notin> author_id ` set (authors catalogue)"
    by (simp add: catalogue_def example_author_def)
  show ?thesis
    using a
      createBook_unknown_author
        [of "empty_payload\<lparr> p_title := Some ''Emma'', p_author := GoodId 9 \<rparr>" catalogue 15 200]
      createBook_unknown_author
        [of "empty_payload\<lparr> p_title := Some ''Emma'', p_author := BadId \<rparr>" catalogue 15 200]
    by (simp add: empty_payload_def)
qed

text \<open>
  The claim as stated fails: an author id that is no ObjectId references no Author, and the
  response is 400, not 404, in both variants.
\<close>

theorem createBook_unknown_author_counterexample:
  "fst (snd (createBook_basic catalogue 15 200
       (empty_payload\<lparr> p_title := Some ''Emma'', p_author := BadId \<rparr>))) = 400 \<and>
   fst (snd (createBook_ext catalogue 15 200
       (empty_payload\<lparr> p_title := Some ''Emma'', p_author := BadId \<rparr>))) = 400"
  by (simp add: createBook_basic_def createBook_ext_def Author_findById_def empty_payload_def
      createBook_catch_def failure_with_def)

subsection \<open>Updates and inserts on a collection\<close>

lemma update_first_find:
  "find P xs = Some b \<Longrightarrow>
     \<exists>ys zs. xs = ys @ b # zs \<and> (\<forall>y \<in> set ys. \<not> P y) \<and>
             update_first P f xs = Some (ys @ f b # zs, f b)"
proof (induction xs)
  case Nil
  then show ?case by simp
next
  case (Cons x xs)
  show ?case
  proof (cases "P x")
    case True
    with Cons.prems have "x = b" by simp
    with True have "x # xs = [] @ b # xs \<and> (\<forall>y \<in> set []. \<not> P y) \<and>
        update_first P f (x # xs) = Some ([] @ f b # xs, f b)"
      by simp
    then show ?thesis by blast
  next
    case False
    with Cons.prems have "find P xs = Some b" by simp
    from Cons.IH [OF this] obtain ys zs where
      h: "xs = ys @ b # zs" "\<forall>y \<in> set ys. \<not> P y" "update_first P f xs = Some (ys @ f b # zs, f b)"
      by blast
    with False have "x # xs = (x # ys) @ b # zs \<and> (\<forall>y \<in> set (x # ys). \<not> P y) \<and>
        update_first P f (x # xs) = Some ((x # ys) @ f b # zs, f b)"
      by simp
    then show ?thesis by blast
  qed
qed

lemma find_append_first:
  "(\<forall>y \<in> set ys. \<not> P y) \<Longrightarrow> P z \<Longrightarrow> find P (ys @ z # zs) = Some z"
  by (induction ys) auto

lemma Book_create_duplicate:
  assumes "list_ex (\<lambda>b. isbn b = map_option trim (p_isbn body)) bs"
  shows "\<exists>e. Book_create x bs fresh now body = Inl e"
proof (cases "p_author body")
  case (GoodId a)
  have "isbn (new_Book x fresh now a body) = map_option trim (p_isbn body)"
    by (simp add: new_Book_def)
  with assms have "list_ex (\<lambda>b'. book_id b' = book_id (new_Book x fresh now a body) \<or>
      isbn b' = isbn (new_Book x fresh now a body)) bs"
    by (auto simp: list_ex_iff)
  then show ?thesis
    by (simp add: Book_create_def GoodId Let_def)
qed (simp_all add: Book_create_def)

lemma Book_create_duplicate_valid:
  assumes "list_ex (\<lambda>b. isbn b = map_option trim (p_isbn body)) bs"
    and "payload_valid x body"
  shows "Book_create x bs fresh now body = Inl DuplicateKey"
proof -
  from assms(2) obtain a where a: "p_author body = GoodId a"
    by (cases "p_author body") (simp_all add: payload_valid_def)
  have "isbn (new_Book x fresh now a body) = map_option trim (p_isbn body)"
    by (simp add: new_Book_def)
  with assms(1) have "list_ex (\<lambda>b'. book_id b' = book_id (new_Book x fresh now a body) \<or>
      isbn b' = isbn (new_Book x fresh now a body)) bs"
    by (auto simp: list_ex_iff)
  then show ?thesis
    using assms(2) by (simp add: Book_create_def a Let_def)
qed

subsection \<open>Creating a book with the isbn of a stored book\<close>

text \<open>
  C4, as amended. Let the isbn of a create-book request, after the \<open>trim\<close> setter of the
  schema, be the isbn of a stored Book. Then no Book is persisted: the store is unchanged in
  both variants, whatever the response. If moreover the author of the request exists, the
  category check of the extended variant passes, and the body passes the validators of the
  schema, the response is 400 with the message \<^verbatim>\<open>Book with this ISBN already exists\<close>.
\<close>

theorem createBook_duplicate_isbn:
  assumes "p_isbn body = Some n"
    and "list_ex (\<lambda>b. isbn b = Some (trim n)) (books st)"
  shows "fst (createBook_basic st fresh now body) = st \<and>
         fst (createBook_ext st fresh now body) = st \<and>
         ((\<exists>a. Author_findById (authors st) (p_author body) = Inr (Some a)) \<and>
          payload_valid False body
            \<longrightarrow> createBook_basic st fresh now body =
                 (st, failure 400 ''Book with this ISBN already exists'')) \<and>
         ((\<exists>a. Author_findById (authors st) (p_author body) = Inr (Some a)) \<and>
          payload_valid True body \<and>
          (p_category body = NoId \<or>
           (\<exists>c. Category_findById (categories st) (p_category body) = Inr (Some c)))
            \<longrightarrow> createBook_ext st fresh now body =
                 (st, failure 400 ''Book with this ISBN already exists''))"
proof -
  have dup: "list_ex (\<lambda>b. isbn b = map_option trim (p_isbn body)) (books st)"
    using assms by simp
  obtain e1 where e1: "Book_create False (books st) fresh now body = Inl e1"
    using Book_create_duplicate [OF dup] by blast
  obtain e2 where e2: "Book_create True (books st) fresh now body = Inl e2"
    using Book_create_duplicate [OF dup] by blast
  have u1: "fst (createBook_basic st fresh now body) = st"
    by (simp add: createBook_basic_def e1 split: sum.splits option.splits)
  have u2: "fst (createBook_ext st fresh now body) = st"
    by (simp add: createBook_ext_def e2 Let_def split: sum.splits option.splits)
  have c1: "createBook_basic st fresh now body = (st, failure 400 ''Book with this ISBN already exists'')"
    if "Author_findById (authors st) (p_author body) = Inr (Some a)" "payload_valid False body" for a
    using that Book_create_duplicate_valid [OF dup that(2)]
    by (simp add: createBook_basic_def createBook_catch_def)
  have c2: "createBook_ext st fresh now body = (st, failure 400 ''Book with this ISBN already exists'')"
    if "Author_findById (authors st) (p_author body) = Inr (Some a)" "payload_valid True body"
      "p_category body = NoId \<or> (\<exists>c. Category_findById (categories st) (p_category body) = Inr (Some c))"
    for a
    using that Book_create_duplicate_valid [OF dup that(2)]
    by (auto simp: createBook_ext_def createBook_catch_def Let_def)
  from u1 u2 c1 c2 show ?thesis by blast
qed

lemmas space_defs = trim_def space1_def space2_def space3_def

lemma trim_isbn:
  "trim ''9780441013593'' = ''9780441013593''"
  "trim (''9780441013593'' @ [CHR 0xC2, CHR 0xA0]) = ''9780441013593''"
  by (simp_all add: space_defs)

lemma trim_examples:
  "trim ''Dune'' = ''Dune''"
  "trim [CHR 0xC2, CHR 0xA0] = []"
  "trim ('' British'' @ [CHR 0xE2, CHR 0x80, CHR 0xA8]) = ''British''"
  by (simp_all add: space_defs)

text \<open>
  The second POST of Dune, and the same with a no-break space after the isbn, which the
  setter strips.
\<close>

theorem createBook_duplicate_isbn_witness:
  "createBook_basic catalogue 15 200 dune_again =
     (catalogue, failure 400 ''Book with this ISBN already exists'') \<and>
   createBook_ext catalogue 15 200 dune_again =
     (catalogue, failure 400 ''Book with this ISBN already exists'') \<and>
   createBook_ext catalogue 15 200
       (dune_again\<lparr> p_isbn := Some (''9780441013593'' @ [CHR 0xC2, CHR 0xA0]) \<rparr>) =
     (catalogue, failure 400 ''Book with this ISBN already exists'')"
proof -
  let ?nbsp = "dune_again\<lparr> p_isbn := Some (''9780441013593'' @ [CHR 0xC2, CHR 0xA0]) \<rparr>"
  have i: "p_isbn dune_again = Some ''9780441013593''"
    "p_isbn ?nbsp = Some (''9780441013593'' @ [CHR 0xC2, CHR 0xA0])"
    by (simp_all add: dune_again_def empty_payload_def)
  have s: "list_ex (\<lambda>b. isbn b = Some (trim ''9780441013593'')) (books catalogue)"
    "list_ex (\<lambda>b. isbn b = Some (trim (''9780441013593'' @ [CHR 0xC2, CHR 0xA0])))
       (books catalogue)"
    by (simp_all only: trim_isbn) (simp_all add: catalogue_def example_book_def)
  have a: "Author_findById (authors catalogue) (p_author dune_again) =
      Inr (Some (example_author 2 ''Frank Herbert'' ''American''))"
    "Author_findById (authors catalogue) (p_author ?nbsp) =
      Inr (Some (example_author 2 ''Frank Herbert'' ''American''))"
    by (simp_all add: dune_again_def empty_payload_def catalogue_def example_author_def
        Author_findById_def)
  have v: "payload_valid x dune_again" "payload_valid x ?nbsp" for x
    by (simp_all add: payload_valid_def dune_again_def empty_payload_def trim_isbn
        trim_examples isbn_ok_def is_digit_def del: append.simps)
  have c: "p_category dune_again = NoId" "p_category ?nbsp = NoId"
    by (simp_all add: dune_again_def empty_payload_def)
  from createBook_duplicate_isbn [OF i(1) s(1), of 15 200] a(1) v(1) c(1)
  have one: "createBook_basic catalogue 15 200 dune_again =
     (catalogue, failure 400 ''Book with this ISBN already exists'') \<and>
   createBook_ext catalogue 15 200 dune_again =
     (catalogue, failure 400 ''Book with this ISBN already exists'')"
    by simp
  from createBook_duplicate_isbn [OF i(2) s(2), of 15 200] a(2) v(2) c(2)
  have two: "createBook_ext catalogue 15 200 ?nbsp =
     (catalogue, failure 400 ''Book with this ISBN already exists'')"
    by blast
  from one two show ?thesis by blast
qed

text \<open>
  The claim as stated fails: with the isbn of a stored book, a request whose author does not
  exist is answered 404 \<^verbatim>\<open>Author not found\<close>, and a request without a title is answered
  400 with the message \<^verbatim>\<open>Failed to create book\<close>.
\<close>

theorem createBook_duplicate_isbn_counterexample:
  "createBook_basic catalogue 15 200 (dune_again\<lparr> p_author := GoodId 9 \<rparr>) =
     (catalogue, failure 404 ''Author not found'') \<and>
   createBook_ext catalogue 15 200 (dune_again\<lparr> p_title := None \<rparr>) =
     (catalogue, failure_with 400 ''Failed to create book'' ValidationError)"
  by (simp add: createBook_basic_def createBook_ext_def Author_findById_def dune_again_def
      empty_payload_def catalogue_def example_author_def Book_create_def payload_valid_def
      createBook_catch_def)

text \<open>
  A title that is white space only, here one no-break space, is empty after the setter, and
  the validator \<open>required\<close> refuses it: the answer is the validation failure, with the isbn
  of a stored book as well.
\<close>

lemma createBook_blank_title:
  "createBook_basic catalogue 15 200 (dune_again\<lparr> p_title := Some [CHR 0xC2, CHR 0xA0] \<rparr>) =
     (catalogue, failure_with 400 ''Failed to create book'' ValidationError) \<and>
   createBook_ext catalogue 15 200 (dune_again\<lparr> p_title := Some [CHR 0xC2, CHR 0xA0] \<rparr>) =
     (catalogue, failure_with 400 ''Failed to create book'' ValidationError)"
  by (simp add: createBook_basic_def createBook_ext_def Author_findById_def dune_again_def
      empty_payload_def catalogue_def example_author_def Book_create_def payload_valid_def
      createBook_catch_def trim_examples)


subsection \<open>Updating a rating\<close>

text \<open>
  For a rating that is a number the handler does what is asked of it. A rating that is
  absent, or a number outside \<open>[0, 5]\<close>, is rejected with 400 and the store is unchanged.
  For a number in \<open>[0, 5]\<close> and the id of an existing Book the response is 200, and
  afterwards the Book found under the id is the old one with the new rating (and update
  time); no other document changes.
\<close>

lemma updateBookRating_number:
  "(body_rating = None \<or> (\<exists>r. body_rating = Some (JNumber r) \<and> (r < 0 \<or> 5 < r))
      \<longrightarrow> updateBookRating rt st now i body_rating =
            (st, failure 400 ''Rating must be between 0 and 5'')) \<and>
   (\<forall>r b. body_rating = Some (JNumber r) \<and> 0 \<le> r \<and> r \<le> 5 \<and>
          Book_findById (books st) i = Inr (Some b)
      \<longrightarrow> (\<exists>st' env ys zs.
             updateBookRating rt st now i body_rating = (st', (200, env)) \<and> success env \<and>
             Book_findById (books st') i =
               Inr (Some (b\<lparr> rating := Some r, updatedAt := now \<rparr>)) \<and>
             books st = ys @ b # zs \<and>
             books st' = ys @ b\<lparr> rating := Some r, updatedAt := now \<rparr> # zs \<and>
             authors st' = authors st \<and> categories st' = categories st))"
proof (intro conjI impI allI)
  assume "body_rating = None \<or> (\<exists>r. body_rating = Some (JNumber r) \<and> (r < 0 \<or> 5 < r))"
  then show "updateBookRating rt st now i body_rating =
      (st, failure 400 ''Rating must be between 0 and 5'')"
    by (auto simp: updateBookRating_def json_number_def)
next
  fix r b
  assume h: "body_rating = Some (JNumber r) \<and> 0 \<le> r \<and> r \<le> 5 \<and>
    Book_findById (books st) i = Inr (Some b)"
  then obtain k where i: "i = GoodId k" and f: "find (\<lambda>b. book_id b = k) (books st) = Some b"
    by (cases i) (auto simp: Book_findById_def)
  let ?f = "\<lambda>b. b\<lparr> rating := Some r, updatedAt := now \<rparr>"
  from update_first_find [OF f, of ?f] obtain ys zs where
    s: "books st = ys @ b # zs" "\<forall>y \<in> set ys. book_id y \<noteq> k"
      "update_first (\<lambda>b. book_id b = k) ?f (books st) = Some (ys @ ?f b # zs, ?f b)"
    by blast
  from f have bk: "book_id b = k" by (auto simp: find_Some_iff)
  have upd: "Book_findByIdAndUpdate_rating rt (books st) now i (JNumber r) =
      Inr (Some (ys @ ?f b # zs, ?f b))"
    using h s(3)
    by (simp add: Book_findByIdAndUpdate_rating_def i castNumber_def validate_rating_def)
  have again: "Book_findById (ys @ ?f b # zs) i = Inr (Some (?f b))"
    using find_append_first [of ys "\<lambda>b. book_id b = k" "?f b" zs] s(2) bk
    by (simp add: Book_findById_def i)
  have guard: "\<not> (js_less (json_number rt (JNumber r)) (Fin 0) \<or>
      js_less (Fin 5) (json_number rt (JNumber r)))"
    using h by (simp add: json_number_def)
  have run: "updateBookRating rt st now i body_rating =
      (st\<lparr> books := ys @ ?f b # zs \<rparr>,
       (200, (envelope0 True)
          \<lparr> data := Some (?f b, populate_author st (author (?f b)),
                          populate_category st (category (?f b))),
            message := Some ''Book rating updated successfully'' \<rparr>))"
    using h upd guard by (simp add: updateBookRating_def)
  show "\<exists>st' env ys zs.
             updateBookRating rt st now i body_rating = (st', (200, env)) \<and> success env \<and>
             Book_findById (books st') i =
               Inr (Some (b\<lparr> rating := Some r, updatedAt := now \<rparr>)) \<and>
             books st = ys @ b # zs \<and>
             books st' = ys @ b\<lparr> rating := Some r, updatedAt := now \<rparr> # zs \<and>
             authors st' = authors st \<and> categories st' = categories st"
    apply (rule exI [of _ "st\<lparr> books := ys @ ?f b # zs \<rparr>"])
    apply (rule exI [of _ "(envelope0 True)
          \<lparr> data := Some (?f b, populate_author st (author (?f b)),
                          populate_category st (category (?f b))),
            message := Some ''Book rating updated successfully'' \<rparr>"])
    apply (rule exI [of _ ys])
    apply (rule exI [of _ zs])
    using run again s(1) by (simp add: envelope0_def)
qed

text \<open>
  A rating that is \<^verbatim>\<open>null\<close>, on any store and for the id of any existing Book: both
  comparisons of the guard are false (\<^verbatim>\<open>null\<close> converts to 0), the cast leaves \<^verbatim>\<open>null\<close>,
  the validators accept it, and the stored rating becomes \<^verbatim>\<open>null\<close>. The empty string
  takes the same path, \<^verbatim>\<open>Number('')\<close> being 0.
\<close>

lemma updateBookRating_nullish:
  assumes "Book_findById (books st) i = Inr (Some b)"
    and "v = JNull \<or> (v = JString [] \<and> StringToNumber rt [] = Fin 0)"
  shows "\<exists>st' env. updateBookRating rt st now i (Some v) = (st', (200, env)) \<and> success env \<and>
           Book_findById (books st') i = Inr (Some (b\<lparr> rating := None, updatedAt := now \<rparr>))"
proof -
  from assms(1) obtain k where i: "i = GoodId k"
    and f: "find (\<lambda>b. book_id b = k) (books st) = Some b"
    by (cases i) (auto simp: Book_findById_def)
  let ?f = "\<lambda>b. b\<lparr> rating := None, updatedAt := now \<rparr>"
  from update_first_find [OF f, of ?f] obtain ys zs where
    s: "books st = ys @ b # zs" "\<forall>y \<in> set ys. book_id y \<noteq> k"
      "update_first (\<lambda>b. book_id b = k) ?f (books st) = Some (ys @ ?f b # zs, ?f b)"
    by blast
  from f have bk: "book_id b = k" by (auto simp: find_Some_iff)
  have guard: "\<not> (js_less (json_number rt v) (Fin 0) \<or> js_less (Fin 5) (json_number rt v))"
    using assms(2) by (auto simp: json_number_def)
  have upd: "Book_findByIdAndUpdate_rating rt (books st) now i v =
      Inr (Some (ys @ ?f b # zs, ?f b))"
    using assms(2) s(3)
    by (auto simp: Book_findByIdAndUpdate_rating_def i castNumber_def validate_rating_def)
  have again: "Book_findById (ys @ ?f b # zs) i = Inr (Some (?f b))"
    using find_append_first [of ys "\<lambda>b. book_id b = k" "?f b" zs] s(2) bk
    by (simp add: Book_findById_def i)
  have run: "updateBookRating rt st now i (Some v) =
      (st\<lparr> books := ys @ ?f b # zs \<rparr>,
       (200, (envelope0 True)
          \<lparr> data := Some (?f b, populate_author st (author (?f b)),
                          populate_category st (category (?f b))),
            message := Some ''Book rating updated successfully'' \<rparr>))"
    using upd guard by (simp add: updateBookRating_def)
  show ?thesis
    apply (rule exI [of _ "st\<lparr> books := ys @ ?f b # zs \<rparr>"])
    apply (rule exI [of _ "(envelope0 True)
          \<lparr> data := Some (?f b, populate_author st (author (?f b)),
                          populate_category st (category (?f b))),
            message := Some ''Book rating updated successfully'' \<rparr>"])
    using run again by (simp add: envelope0_def)
qed

text \<open>
  C5 fails on a rating that is no number. For \<^verbatim>\<open>PATCH /api/books/12/rating\<close> with the body
  \<^verbatim>\<open>{"rating": null}\<close> on the catalogue, where the book 12 is Dune with the rating 4: the
  request is not rejected. The response is 200 with the message of success, and the stored
  rating of Dune is \<^verbatim>\<open>null\<close>, a value that is missing and not in \<open>[0, 5]\<close>.
\<close>

theorem updateBookRating_accepts_null:
  "updateBookRating rt catalogue 300 (GoodId 12) (Some JNull) =
     (catalogue\<lparr> books :=
        [example_book 11 ''The Hobbit'' 1 ''9780261102217'' ''Fantasy'' (9 / 2) (Some 21) 100,
         (example_book 12 ''Dune'' 2 ''9780441013593'' ''Science Fiction'' 4 None 101)
           \<lparr> rating := None, updatedAt := 300 \<rparr>,
         example_book 13 ''Dune Messiah'' 2 ''9780441172696'' ''Science Fiction'' 4 None 102,
         example_book 14 ''Children of Dune'' 2 ''9780441104024'' ''Science Fiction'' 0 None 103] \<rparr>,
      (200, (envelope0 True)
         \<lparr> data := Some
              ((example_book 12 ''Dune'' 2 ''9780441013593'' ''Science Fiction'' 4 None 101)
                 \<lparr> rating := None, updatedAt := 300 \<rparr>,
               Some \<lparr> ref_id = 2, ref_name = ''Frank Herbert'', ref_nationality = Some ''American'' \<rparr>,
               None),
           message := Some ''Book rating updated successfully'' \<rparr>))"
  by (simp add: updateBookRating_def json_number_def Book_findByIdAndUpdate_rating_def
      castNumber_def validate_rating_def catalogue_def example_book_def example_author_def
      populate_author_def populate_category_def)

subsection \<open>Pagination of the list endpoints\<close>

lemma safe_integer_of_int:
  "\<bar>n\<bar> \<le> 9007199254740992 \<Longrightarrow> safe_integer (Fin (of_int n)) = Some n"
  by (simp add: safe_integer_def flip: of_int_abs)

lemma safe_integer_Some:
  assumes "safe_integer x = Some n"
  shows "x = Fin (of_int n)"
  using assms by (cases x) (auto simp: safe_integer_def split: if_splits)

lemma json_number_to_json: "json_number rt (to_json v) = ToNumber rt v"
  by (cases v) (simp_all add: json_number_def to_json_def ToNumber_def)

text \<open>
  The query that the extended \<open>getAllBooks\<close> builds selects the books that the filter of
  the specification selects, and the query of \<open>getAllAuthors\<close> the authors.
\<close>

lemma rating_gte_selected:
  "rating_gte r x =
     (case (x, r) of (Fin x, Some r) \<Rightarrow> x \<le> r | (NegInf, Some r) \<Rightarrow> True | _ \<Rightarrow> False)"
  by (cases r; cases x) simp_all

lemma rating_lte_selected:
  "rating_lte r x =
     (case (x, r) of (Fin x, Some r) \<Rightarrow> r \<le> x | (PosInf, Some r) \<Rightarrow> True | _ \<Rightarrow> False)"
  by (cases r; cases x) simp_all

lemma book_matches_selected:
  "book_matches rt (build_query_ext rt req) = book_selected rt req"
proof
  fix b
  show "book_matches rt (build_query_ext rt req) b = book_selected rt req b"
    unfolding book_matches_def build_query_ext_def book_selected_def when_truthy_def
      rating_gte_selected rating_lte_selected
    by (simp split: option.splits idarg.splits)
qed

lemma query_accepted:
  assumes "qs_category req \<noteq> BadId"
    and "\<forall>s. qs_minRating req = Some s \<and> s \<noteq> [] \<longrightarrow> parseFloat rt s \<noteq> NaN"
    and "\<forall>s. qs_maxRating req = Some s \<and> s \<noteq> [] \<longrightarrow> parseFloat rt s \<noteq> NaN"
  shows "\<not> query_cast_error (build_query_ext rt req)"
  using assms
  by (auto simp: query_cast_error_def build_query_ext_def when_truthy_def split: option.splits)

lemma Author_find_selected:
  assumes "\<forall>s. aq_search req = Some s \<and> s \<noteq> [] \<longrightarrow> regexTest rt s \<noteq> None"
  shows "Author_find rt as (build_author_query req) = Inr (filter (author_selected rt req) as)"
proof (cases "when_truthy (aq_search req)")
  case None
  then have "author_matches (build_author_query req) (\<lambda>_. True) = author_selected rt req"
    by (auto simp: author_matches_def build_author_query_def author_selected_def when_truthy_def
        fun_eq_iff split: option.splits if_splits)
  with None show ?thesis
    by (simp add: Author_find_def build_author_query_def)
next
  case (Some s)
  then have s: "aq_search req = Some s" "s \<noteq> []"
    by (auto simp: when_truthy_def split: option.splits if_splits)
  with assms obtain re where re: "regexTest rt s = Some re" by auto
  have "author_matches (build_author_query req) re = author_selected rt req"
    using s re
    by (auto simp: author_matches_def build_author_query_def author_selected_def when_truthy_def
        fun_eq_iff split: option.splits if_splits)
  with Some re show ?thesis
    by (simp add: Author_find_def build_author_query_def)
qed

text \<open>The two handlers on a page and a limit that are read as the safe integers \<open>p\<close> and \<open>l\<close>.\<close>

lemma getAllBooks_ext_valid:
  assumes "safe_integer (ToNumber rt (with_default 1 (qs_page req))) = Some p" and "1 \<le> p"
    and "safe_integer (ToNumber rt (with_default 10 (qs_limit req))) = Some l" and "1 \<le> l"
    and "(p - 1) * l \<le> 9007199254740992"
    and "\<not> query_cast_error (build_query_ext rt req)"
  shows "getAllBooks_ext rt st req =
     Some (page_envelope
       (map (\<lambda>b. (b, populate_author st (author b), populate_category st (category b)))
          (skip_limit ((p - 1) * l) l
             (sort_createdAt_desc (filter (book_selected rt req) (books st)))))
       (Math_ceil_div (length (filter (book_selected rt req) (books st))) l)
       (number_json (parseInt rt (with_default 1 (qs_page req))))
       (length (filter (book_selected rt req) (books st))))"
  using assms
  by (simp add: getAllBooks_ext_def Let_def Book_find_def Book_countDocuments_def
      book_matches_selected)

lemma getAllAuthors_basic_valid:
  assumes "safe_integer (ToNumber rt (with_default 1 (aq_page req))) = Some p" and "1 \<le> p"
    and "safe_integer (ToNumber rt (with_default 10 (aq_limit req))) = Some l" and "1 \<le> l"
    and "(p - 1) * l \<le> 9007199254740992"
    and "\<forall>s. aq_search req = Some s \<and> s \<noteq> [] \<longrightarrow> regexTest rt s \<noteq> None"
  shows "getAllAuthors_basic rt st req =
     Some (page_envelope
       (skip_limit ((p - 1) * l) l
          (sort_by_path (\<lambda>a. BString (name a)) 1 (filter (author_selected rt req) (authors st))))
       (Math_ceil_div (length (filter (author_selected rt req) (authors st))) l)
       (to_json (with_default 1 (aq_page req)))
       (length (filter (author_selected rt req) (authors st))))"
  using assms(1-5) Author_find_selected [OF assms(6), of "authors st"]
  by (simp add: getAllAuthors_basic_def Let_def Author_countDocuments_def)

lemma numeral_number_examples:
  "numeral_number ''1'' = Fin 1" "numeral_number ''2'' = Fin 2" "numeral_number ''5'' = Fin 5"
  by (simp_all add: numeral_number_def decimal_numeral_def is_digit_def digits_value_def
      digit_value_def nearest_double_def)

lemma example_runtime_fields:
  "StringToNumber example_runtime = numeral_number"
  "StringParseInt example_runtime = numeral_number"
  "parseFloat example_runtime = numeral_number"
  "strictQuery example_runtime"
  by (simp_all add: example_runtime_def)

lemma example_paging:
  "safe_integer (ToNumber rt (with_default 1 None)) = Some 1"
  "safe_integer (ToNumber rt (with_default 10 None)) = Some 10"
  "safe_integer (ToNumber example_runtime (with_default d (Some ''1''))) = Some 1"
  "safe_integer (ToNumber example_runtime (with_default d (Some ''2''))) = Some 2"
  "safe_integer (ToNumber example_runtime (with_default d (Some ''5''))) = Some 5"
  "parseInt example_runtime (with_default d (Some ''2'')) = Fin 2"
  using safe_integer_of_int [of 1] safe_integer_of_int [of 2] safe_integer_of_int [of 5]
    safe_integer_of_int [of 10]
  by (simp_all add: with_default_def ToNumber_def parseInt_def example_runtime_fields
      numeral_number_examples safe_integer_def)

lemma page_two_fields:
  "aq_page page_two = Some ''2''" "aq_limit page_two = Some ''1''"
  "aq_sortBy page_two = None" "aq_order page_two = None"
  "aq_search page_two = None" "aq_nationality page_two = None"
  by (simp_all add: page_two_def no_author_params_def)

lemma find_all_catalogue:
  "Author_find example_runtime (authors catalogue) (build_author_query page_two) =
     Inr (authors catalogue)"
  by (simp add: Author_find_def build_author_query_def page_two_def no_author_params_def
      when_truthy_def author_matches_def)

text \<open>
  C6. Let the page and the limit of a request be valid: JavaScript reads them (the defaults
  1 and 10 when they are absent) as safe integers \<open>p\<close> and \<open>l\<close> of at least 1, with a skip
  \<open>(p - 1) * l\<close> of at most \<open>2^53\<close>. Then for every store the envelope of the list endpoint
  has \<open>total\<close> equal to the number of documents that the filter of the request selects,
  and \<open>totalPages\<close> equal to the ceiling of \<open>total / l\<close>. In the extended \<open>getAllBooks\<close>
  \<open>currentPage\<close> is \<^verbatim>\<open>parseInt\<close> of the page, the number \<open>p\<close> when \<^verbatim>\<open>parseInt\<close> reads the page
  as \<open>p\<close> too. The basic \<open>getAllAuthors\<close> returns the page as it received it, a value whose
  number is \<open>p\<close>. The requests are those that the store accepts: the category is no
  malformed id, the rating bounds are numbers, and the search pattern compiles.
\<close>

theorem list_envelope_pagination:
  assumes "safe_integer (ToNumber rt (with_default 1 page)) = Some p" and "1 \<le> p"
    and "safe_integer (ToNumber rt (with_default 10 limit)) = Some l" and "1 \<le> l"
    and "(p - 1) * l \<le> 9007199254740992"
  shows "(qs_page req = page \<and> qs_limit req = limit \<and>
          parseInt rt (with_default 1 page) = Fin (of_int p) \<and>
          qs_category req \<noteq> BadId \<and>
          (\<forall>s. qs_minRating req = Some s \<and> s \<noteq> [] \<longrightarrow> parseFloat rt s \<noteq> NaN) \<and>
          (\<forall>s. qs_maxRating req = Some s \<and> s \<noteq> [] \<longrightarrow> parseFloat rt s \<noteq> NaN)
            \<longrightarrow> (\<exists>env. getAllBooks_ext rt st req = Some (200, env) \<and> success env \<and>
                   currentPage env = Some (JNumber (of_int p)) \<and>
                   totalDocs env = Some (length (filter (book_selected rt req) (books st))) \<and>
                   totalPages env =
                     Some \<lceil>rat_of_nat (length (filter (book_selected rt req) (books st)))
                           / rat_of_int l\<rceil>)) \<and>
         (aq_page areq = page \<and> aq_limit areq = limit \<and>
          (\<forall>s. aq_search areq = Some s \<and> s \<noteq> [] \<longrightarrow> regexTest rt s \<noteq> None)
            \<longrightarrow> (\<exists>env. getAllAuthors_basic rt st areq = Some (200, env) \<and> success env \<and>
                   currentPage env = Some (to_json (with_default 1 page)) \<and>
                   json_number rt (to_json (with_default 1 page)) = Fin (of_int p) \<and>
                   totalDocs env =
                     Some (length (filter (author_selected rt areq) (authors st))) \<and>
                   totalPages env =
                     Some \<lceil>rat_of_nat (length (filter (author_selected rt areq) (authors st)))
                           / rat_of_int l\<rceil>))"
proof (intro conjI impI)
  assume h: "qs_page req = page \<and> qs_limit req = limit \<and>
          parseInt rt (with_default 1 page) = Fin (of_int p) \<and>
          qs_category req \<noteq> BadId \<and>
          (\<forall>s. qs_minRating req = Some s \<and> s \<noteq> [] \<longrightarrow> parseFloat rt s \<noteq> NaN) \<and>
          (\<forall>s. qs_maxRating req = Some s \<and> s \<noteq> [] \<longrightarrow> parseFloat rt s \<noteq> NaN)"
  then have q: "\<not> query_cast_error (build_query_ext rt req)"
    using query_accepted by blast
  from h assms have v: "safe_integer (ToNumber rt (with_default 1 (qs_page req))) = Some p"
    "safe_integer (ToNumber rt (with_default 10 (qs_limit req))) = Some l"
    by simp_all
  from h have c: "number_json (parseInt rt (with_default 1 (qs_page req))) = JNumber (of_int p)"
    by (simp add: number_json_def)
  show "\<exists>env. getAllBooks_ext rt st req = Some (200, env) \<and> success env \<and>
                   currentPage env = Some (JNumber (of_int p)) \<and>
                   totalDocs env = Some (length (filter (book_selected rt req) (books st))) \<and>
                   totalPages env =
                     Some \<lceil>rat_of_nat (length (filter (book_selected rt req) (books st)))
                           / rat_of_int l\<rceil>"
    unfolding getAllBooks_ext_valid [OF v(1) assms(2) v(2) assms(4) assms(5) q] c
    by (simp add: page_envelope_def envelope0_def Math_ceil_div_def)
next
  assume h: "aq_page areq = page \<and> aq_limit areq = limit \<and>
          (\<forall>s. aq_search areq = Some s \<and> s \<noteq> [] \<longrightarrow> regexTest rt s \<noteq> None)"
  with assms have v: "safe_integer (ToNumber rt (with_default 1 (aq_page areq))) = Some p"
    "safe_integer (ToNumber rt (with_default 10 (aq_limit areq))) = Some l"
    by simp_all
  from h have r: "\<forall>s. aq_search areq = Some s \<and> s \<noteq> [] \<longrightarrow> regexTest rt s \<noteq> None"
    by blast
  have n: "json_number rt (to_json (with_default 1 page)) = Fin (of_int p)"
    using safe_integer_Some [OF assms(1)] by (simp add: json_number_to_json)
  from h have pg: "aq_page areq = page" by blast
  show "\<exists>env. getAllAuthors_basic rt st areq = Some (200, env) \<and> success env \<and>
                   currentPage env = Some (to_json (with_default 1 page)) \<and>
                   json_number rt (to_json (with_default 1 page)) = Fin (of_int p) \<and>
                   totalDocs env =
                     Some (length (filter (author_selected rt areq) (authors st))) \<and>
                   totalPages env =
                     Some \<lceil>rat_of_nat (length (filter (author_selected rt areq) (authors st)))
                           / rat_of_int l\<rceil>"
    unfolding getAllAuthors_basic_valid [OF v(1) assms(2) v(2) assms(4) assms(5) r]
    using n by (simp add: page_envelope_def envelope0_def Math_ceil_div_def pg)
qed

text \<open>
  Page 2 of the Science Fiction books of the catalogue by 2, and page 2 of its British
  authors by 1, the nationality given with white space around it.
\<close>

theorem list_envelope_pagination_witness:
  "(\<exists>env. getAllBooks_ext example_runtime catalogue science_fiction_page_two = Some (200, env) \<and>
      currentPage env = Some (JNumber 2) \<and> totalDocs env = Some 3 \<and> totalPages env = Some 2) \<and>
   (\<exists>env. getAllAuthors_basic example_runtime catalogue british_page_two = Some (200, env) \<and>
      currentPage env = Some (JString ''2'') \<and> totalDocs env = Some 2 \<and> totalPages env = Some 2)"
proof -
  have n: "length (filter (book_selected example_runtime science_fiction_page_two)
      (books catalogue)) = 3"
    by (simp add: book_selected_def science_fiction_page_two_def no_params_def catalogue_def
        example_book_def)
  have b: "qs_page science_fiction_page_two = Some ''2'' \<and>
      qs_limit science_fiction_page_two = Some ''2'' \<and>
      parseInt example_runtime (with_default 1 (Some ''2'')) = Fin (of_int 2) \<and>
      qs_category science_fiction_page_two \<noteq> BadId \<and>
      (\<forall>s. qs_minRating science_fiction_page_two = Some s \<and> s \<noteq> []
          \<longrightarrow> parseFloat example_runtime s \<noteq> NaN) \<and>
      (\<forall>s. qs_maxRating science_fiction_page_two = Some s \<and> s \<noteq> []
          \<longrightarrow> parseFloat example_runtime s \<noteq> NaN)"
    by (simp add: science_fiction_page_two_def no_params_def example_paging)
  have m: "length (filter (author_selected example_runtime british_page_two)
      (authors catalogue)) = 2"
    by (simp add: author_selected_def british_page_two_def page_two_fields catalogue_def
        example_author_def space_defs)
  have a: "aq_page british_page_two = Some ''2'' \<and> aq_limit british_page_two = Some ''1'' \<and>
      (\<forall>s. aq_search british_page_two = Some s \<and> s \<noteq> []
          \<longrightarrow> regexTest example_runtime s \<noteq> None)"
    by (simp add: british_page_two_def page_two_fields)
  have c: "\<lceil>(3::rat) / 2\<rceil> = 2" by (simp add: ceiling_unique)
  have books: "\<exists>env. getAllBooks_ext example_runtime catalogue science_fiction_page_two =
      Some (200, env) \<and>
      currentPage env = Some (JNumber 2) \<and> totalDocs env = Some 3 \<and> totalPages env = Some 2"
    using list_envelope_pagination [where rt = example_runtime and page = "Some ''2''"
        and p = 2 and limit = "Some ''2''" and l = 2 and st = catalogue,
        THEN conjunct1, rule_format, OF example_paging(4) _ example_paging(4) _ _ b]
    by (simp add: n c) blast
  have authors: "\<exists>env. getAllAuthors_basic example_runtime catalogue british_page_two =
      Some (200, env) \<and>
      currentPage env = Some (JString ''2'') \<and> totalDocs env = Some 2 \<and> totalPages env = Some 2"
    using list_envelope_pagination [where rt = example_runtime and page = "Some ''2''"
        and p = 2 and limit = "Some ''1''" and l = 1 and st = catalogue,
        THEN conjunct2, rule_format, OF example_paging(4) _ example_paging(3) _ _ a]
    by (simp add: m to_json_def with_default_def) blast
  from books authors show ?thesis by blast
qed

text \<open>
  A page beyond the safe integers: for \<^verbatim>\<open>GET /api/books?page=9007199254740993&limit=1\<close>
  JavaScript reads the page as the double \<open>2^53\<close>, and that is \<open>currentPage\<close>.
\<close>

lemma bit_length_beyond_safe: "bit_length 9007199254740993 = 54"
  by (simp add: bit_length.simps)

lemma numeral_number_beyond_safe:
  "numeral_number ''9007199254740993'' = Fin 9007199254740992"
  by (simp add: numeral_number_def decimal_numeral_def is_digit_def digits_value_def
      digit_value_def nearest_double_def bit_length_beyond_safe Let_def)

lemma currentPage_beyond_safe:
  "map_option (\<lambda>r. (fst r, currentPage (snd r), totalDocs (snd r), totalPages (snd r)))
     (getAllBooks_ext example_runtime catalogue page_beyond_safe) =
   Some (200, Some (JNumber 9007199254740992), Some 4, Some 4)"
proof -
  have p: "safe_integer (ToNumber example_runtime (with_default 1 (qs_page page_beyond_safe))) =
      Some 9007199254740992"
    using safe_integer_of_int [of 9007199254740992]
    by (simp add: page_beyond_safe_def no_params_def with_default_def ToNumber_def
        example_runtime_fields numeral_number_beyond_safe)
  have l: "safe_integer (ToNumber example_runtime (with_default 10 (qs_limit page_beyond_safe))) =
      Some 1"
    by (simp add: page_beyond_safe_def no_params_def example_paging)
  have q: "\<not> query_cast_error (build_query_ext example_runtime page_beyond_safe)"
    by (simp add: query_cast_error_def build_query_ext_def page_beyond_safe_def no_params_def
        when_truthy_def)
  have n: "length (filter (book_selected example_runtime page_beyond_safe) (books catalogue)) = 4"
    by (simp add: book_selected_def page_beyond_safe_def no_params_def catalogue_def)
  have c: "parseInt example_runtime (with_default 1 (qs_page page_beyond_safe)) =
      Fin 9007199254740992"
    by (simp add: page_beyond_safe_def no_params_def with_default_def parseInt_def
        example_runtime_fields numeral_number_beyond_safe)
  show ?thesis
    unfolding getAllBooks_ext_valid [OF p _ l _ _ q, simplified] c n
    by (simp add: page_envelope_def envelope0_def Math_ceil_div_def number_json_def)
qed


subsection \<open>The filters of \<open>getAllBooks\<close>\<close>

lemma set_skip_limit: "set (skip_limit s l xs) \<subseteq> set xs"
  unfolding skip_limit_def
  by (meson set_take_subset set_drop_subset subset_trans)

lemma length_skip_limit:
  "0 \<le> s \<Longrightarrow> 0 \<le> l \<Longrightarrow> int (length (skip_limit s l xs)) = min l (max 0 (int (length xs) - s))"
  by (auto simp: skip_limit_def min_def max_def)

lemma book_matches_genre:
  "book_matches rt (build_query_ext rt req) b \<Longrightarrow> when_truthy (qs_genre req) = Some g
     \<Longrightarrow> genre b = g"
  by (simp add: book_matches_def build_query_ext_def)

lemma book_matches_inStock:
  "book_matches rt (build_query_ext rt req) b \<Longrightarrow> qs_inStock req = Some v
     \<Longrightarrow> inStock b = (v = ''true'')"
  by (simp add: book_matches_def build_query_ext_def)

lemma book_matches_text:
  "book_matches rt (build_query_ext rt req) b \<Longrightarrow> when_truthy (qs_search req) = Some s
     \<Longrightarrow> textSearch rt s (title b) (description b)"
  by (simp add: book_matches_def build_query_ext_def)

text \<open>The extended variant returns only books that match the query, in pages of the limit.\<close>

lemma getAllBooks_ext_respects_filter:
  assumes "safe_integer (ToNumber rt (with_default 1 (qs_page req))) = Some p" and "1 \<le> p"
    and "safe_integer (ToNumber rt (with_default 10 (qs_limit req))) = Some l" and "1 \<le> l"
    and "(p - 1) * l \<le> 9007199254740992"
    and "\<not> query_cast_error (build_query_ext rt req)"
  shows "\<exists>env d. getAllBooks_ext rt st req = Some (200, env) \<and> data env = Some d \<and>
           (\<forall>(b, a, c) \<in> set d.
               b \<in> set (books st) \<and>
               (\<forall>g. when_truthy (qs_genre req) = Some g \<longrightarrow> genre b = g) \<and>
               (\<forall>v. qs_inStock req = Some v \<longrightarrow> inStock b = (v = ''true'')) \<and>
               (\<forall>s. when_truthy (qs_search req) = Some s
                     \<longrightarrow> textSearch rt s (title b) (description b))) \<and>
           int (length d) =
             min l (max 0 (int (length (filter (book_selected rt req) (books st))) - (p - 1) * l))"
proof -
  let ?found = "filter (book_selected rt req) (books st)"
  let ?page = "skip_limit ((p - 1) * l) l (sort_createdAt_desc ?found)"
  let ?d = "map (\<lambda>b. (b, populate_author st (author b), populate_category st (category b))) ?page"
  let ?cur = "number_json (parseInt rt (with_default 1 (qs_page req)))"
  have sub: "set ?page \<subseteq> set ?found"
    using set_skip_limit [of "(p - 1) * l" l "sort_createdAt_desc ?found"]
    by (simp add: sort_createdAt_desc_def)
  have m: "b \<in> set (books st) \<and>
               (\<forall>g. when_truthy (qs_genre req) = Some g \<longrightarrow> genre b = g) \<and>
               (\<forall>v. qs_inStock req = Some v \<longrightarrow> inStock b = (v = ''true'')) \<and>
               (\<forall>s. when_truthy (qs_search req) = Some s
                     \<longrightarrow> textSearch rt s (title b) (description b))"
    if "b \<in> set ?page" for b
  proof -
    from that sub have "b \<in> set (books st)" and "book_selected rt req b" by auto
    then have "b \<in> set (books st)" and "book_matches rt (build_query_ext rt req) b"
      by (simp_all add: book_matches_selected)
    then show ?thesis
      using book_matches_genre book_matches_inStock book_matches_text by blast
  qed
  have len: "int (length ?d) = min l (max 0 (int (length ?found) - (p - 1) * l))"
    using length_skip_limit [of "(p - 1) * l" l "sort_createdAt_desc ?found"] assms(2,4)
    by (simp add: sort_createdAt_desc_def)
  have "getAllBooks_ext rt st req =
      Some (200, (envelope0 True)\<lparr> data := Some ?d,
         totalPages := Some (Math_ceil_div (length ?found) l),
         currentPage := Some ?cur, totalDocs := Some (length ?found) \<rparr>)"
    using getAllBooks_ext_valid [OF assms] by (simp add: page_envelope_def)
  moreover have "\<forall>(b, a, c) \<in> set ?d.
               b \<in> set (books st) \<and>
               (\<forall>g. when_truthy (qs_genre req) = Some g \<longrightarrow> genre b = g) \<and>
               (\<forall>v. qs_inStock req = Some v \<longrightarrow> inStock b = (v = ''true'')) \<and>
               (\<forall>s. when_truthy (qs_search req) = Some s
                     \<longrightarrow> textSearch rt s (title b) (description b))"
  proof (intro ballI, clarify)
    fix b a c
    assume "(b, a, c) \<in> set ?d"
    then have "b \<in> set ?page" by auto
    from m [OF this]
    show "b \<in> set (books st) \<and>
               (\<forall>g. when_truthy (qs_genre req) = Some g \<longrightarrow> genre b = g) \<and>
               (\<forall>v. qs_inStock req = Some v \<longrightarrow> inStock b = (v = ''true'')) \<and>
               (\<forall>s. when_truthy (qs_search req) = Some s
                     \<longrightarrow> textSearch rt s (title b) (description b))" .
  qed
  moreover have "data ((envelope0 True)\<lparr> data := Some ?d,
         totalPages := Some (Math_ceil_div (length ?found) l),
         currentPage := Some ?cur, totalDocs := Some (length ?found) \<rparr>) = Some ?d"
    by simp
  ultimately show ?thesis
    using len by blast
qed

text \<open>
  The example of the spec on the extended variant: with 12 matching books, page 2 and limit 5
  give 5 items, \<open>currentPage\<close> 2 and \<open>totalPages\<close> 3, on a runtime that reads the numerals
  2 and 5 as JavaScript does.
\<close>

lemma getAllBooks_ext_twelve:
  assumes "qs_page req = Some ''2''" and "qs_limit req = Some ''5''"
    and "StringToNumber rt ''2'' = Fin 2" and "StringParseInt rt ''2'' = Fin 2"
    and "StringToNumber rt ''5'' = Fin 5"
    and "\<not> query_cast_error (build_query_ext rt req)"
    and "length (filter (book_selected rt req) (books st)) = 12"
  shows "\<exists>env d. getAllBooks_ext rt st req = Some (200, env) \<and> data env = Some d \<and>
           length d = 5 \<and> currentPage env = Some (JNumber 2) \<and> totalPages env = Some 3"
proof -
  have p: "safe_integer (ToNumber rt (with_default 1 (qs_page req))) = Some 2"
    using safe_integer_of_int [of 2] by (simp add: assms with_default_def ToNumber_def)
  have l: "safe_integer (ToNumber rt (with_default 10 (qs_limit req))) = Some 5"
    using safe_integer_of_int [of 5] by (simp add: assms with_default_def ToNumber_def)
  have cur: "number_json (parseInt rt (with_default 1 (qs_page req))) = JNumber 2"
    by (simp add: assms with_default_def parseInt_def number_json_def)
  have c: "Math_ceil_div 12 5 = 3"
    by (simp add: Math_ceil_div_def ceiling_unique)
  show ?thesis
    unfolding getAllBooks_ext_valid [OF p _ l _ _ assms(6), simplified] cur
    by (simp add: page_envelope_def envelope0_def assms(7) c skip_limit_def sort_createdAt_desc_def)
qed

lemma fantasy_fields:
  "qs_page fantasy_request = None" "qs_limit fantasy_request = None"
  "qs_genre fantasy_request = Some ''Fantasy''" "qs_inStock fantasy_request = None"
  "qs_search fantasy_request = None"
  by (simp_all add: fantasy_request_def no_params_def)


text \<open>
  C1 fails on the basic variant, which finds the documents with \<^verbatim>\<open>Book.find({query})\<close>
  and counts them with \<^verbatim>\<open>Book.countDocuments(query)\<close>. For \<^verbatim>\<open>GET /api/books?genre=Fantasy\<close>
  on the catalogue, which has one Fantasy book: with \<open>strictQuery\<close> on, the response lists all
  four books, three of them Science Fiction, beside a total of 1; with \<open>strictQuery\<close> off it
  lists none, beside a total of 1.
\<close>


theorem getAllBooks_basic_ignores_query:
  "map_option (\<lambda>r. (fst r, map_option (map (\<lambda>(b, a). (title b, genre b))) (data (snd r)),
                     totalDocs (snd r), totalPages (snd r)))
     (getAllBooks_basic example_runtime catalogue fantasy_request) =
     Some (200, Some [(''Children of Dune'', ''Science Fiction''), (''Dune Messiah'', ''Science Fiction''),
                      (''Dune'', ''Science Fiction''), (''The Hobbit'', ''Fantasy'')],
           Some 1, Some 1) \<and>
   map_option (\<lambda>r. (fst r, map_option (map (\<lambda>(b, a). (title b, genre b))) (data (snd r)),
                     totalDocs (snd r), totalPages (snd r)))
     (getAllBooks_basic (example_runtime\<lparr> strictQuery := False \<rparr>) catalogue fantasy_request) =
     Some (200, Some [], Some 1, Some 1)"
proof -
  have q: "build_query_basic fantasy_request =
      \<lparr> q_genre = Some ''Fantasy'', q_category = NoId, q_inStock = None, q_rating_gte = None,
        q_rating_lte = None, q_text = None \<rparr>"
    by (simp add: build_query_basic_def fantasy_fields when_truthy_def)
  have n: "Book_countDocuments rt (books catalogue) (build_query_basic fantasy_request) = Inr 1" for rt
    by (simp add: q Book_countDocuments_def query_cast_error_def book_matches_def catalogue_def
        example_book_def)
  have c: "Math_ceil_div (Suc 0) 10 = 1"
    by (simp add: Math_ceil_div_def ceiling_unique)
  have s: "sort_createdAt_desc (books catalogue) =
      [example_book 14 ''Children of Dune'' 2 ''9780441104024'' ''Science Fiction'' 0 None 103,
       example_book 13 ''Dune Messiah'' 2 ''9780441172696'' ''Science Fiction'' 4 None 102,
       example_book 12 ''Dune'' 2 ''9780441013593'' ''Science Fiction'' 4 None 101,
       example_book 11 ''The Hobbit'' 1 ''9780261102217'' ''Fantasy'' (9 / 2) (Some 21) 100]"
    by (simp add: sort_createdAt_desc_def catalogue_def example_book_def)
  have strict: "Book_find example_runtime (books catalogue)
      (Under_query_key (build_query_basic fantasy_request)) = Inr (books catalogue)"
    by (simp add: Book_find_def example_runtime_def)
  have loose: "Book_find (example_runtime\<lparr> strictQuery := False \<rparr>) (books catalogue)
      (Under_query_key (build_query_basic fantasy_request)) = Inr []"
    by (simp add: Book_find_def q)
  have a: "getAllBooks_basic example_runtime catalogue fantasy_request =
      Some (page_envelope
        (map (\<lambda>b. (b, populate_author catalogue (author b))) (sort_createdAt_desc (books catalogue)))
        1 (JNumber 1) 1)"
    by (simp add: getAllBooks_basic_def Let_def fantasy_fields example_paging strict n c
        skip_limit_def s) (simp add: with_default_def to_json_def)
  have b: "getAllBooks_basic (example_runtime\<lparr> strictQuery := False \<rparr>) catalogue fantasy_request =
      Some (page_envelope [] 1 (JNumber 1) 1)"
    by (simp add: getAllBooks_basic_def Let_def fantasy_fields example_paging loose n c
        skip_limit_def sort_createdAt_desc_def) (simp add: with_default_def to_json_def)
  show ?thesis
    by (simp add: a b s page_envelope_def envelope0_def example_book_def)
qed


subsection \<open>The two variants of \<open>getAllAuthors\<close>\<close>

lemma author_path_name: "author_path ''name'' = Some (\<lambda>a. BString (name a))"
  by (simp add: author_path_def)

lemma getAllAuthors_basic_page:
  "getAllAuthors_basic rt st req =
     authors_page rt st req (to_json (with_default 1 (aq_page req)))"
  by (simp add: getAllAuthors_basic_def authors_page_def Let_def Author_countDocuments_def
      split: option.splits sum.splits)

lemma getAllAuthors_ext_page:
  assumes "aq_sortBy req = None" and "aq_order req = None"
  shows "getAllAuthors_ext rt st req =
           authors_page rt st req (number_json (parseInt rt (with_default 1 (aq_page req))))"
  using assms
  by (simp add: getAllAuthors_ext_def authors_page_def Let_def Author_countDocuments_def
      author_path_name split: option.splits sum.splits)

text \<open>
  What the two variants share. For a request without \<open>sortBy\<close> and \<open>order\<close> the extended
  variant returns what the basic variant returns (the same status, the same author list,
  the same \<open>totalPages\<close> and \<open>total\<close>) except for \<open>currentPage\<close>, which is \<^verbatim>\<open>parseInt\<close> of
  the page in the extended variant. When the request has no page either, the two responses
  are equal.
\<close>

lemma getAllAuthors_ext_of_basic:
  assumes "aq_sortBy req = None" and "aq_order req = None"
  shows "getAllAuthors_ext rt st req =
           map_option
             (apsnd (\<lambda>env. env\<lparr> currentPage :=
                        map_option (\<lambda>_. number_json (parseInt rt (with_default 1 (aq_page req))))
                          (currentPage env) \<rparr>))
             (getAllAuthors_basic rt st req) \<and>
         (aq_page req = None \<longrightarrow> getAllAuthors_ext rt st req = getAllAuthors_basic rt st req)"
proof
  show "getAllAuthors_ext rt st req =
           map_option
             (apsnd (\<lambda>env. env\<lparr> currentPage :=
                        map_option (\<lambda>_. number_json (parseInt rt (with_default 1 (aq_page req))))
                          (currentPage env) \<rparr>))
             (getAllAuthors_basic rt st req)"
    unfolding getAllAuthors_basic_page getAllAuthors_ext_page [OF assms]
    by (simp add: authors_page_def server_error_def failure_with_def
        page_envelope_def envelope0_def split: option.splits sum.splits)
  show "aq_page req = None \<longrightarrow> getAllAuthors_ext rt st req = getAllAuthors_basic rt st req"
  proof
    assume n: "aq_page req = None"
    then have "number_json (parseInt rt (with_default 1 (aq_page req))) =
        to_json (with_default 1 (aq_page req))"
      by (simp add: with_default_def parseInt_def number_json_def to_json_def)
    then show "getAllAuthors_ext rt st req = getAllAuthors_basic rt st req"
      unfolding getAllAuthors_basic_page getAllAuthors_ext_page [OF assms]
      by simp
  qed
qed

lemma sort_authors_catalogue:
  "sort_by_path (\<lambda>a. BString (name a)) 1 (authors catalogue) =
     [example_author 2 ''Frank Herbert'' ''American'',
      example_author 1 ''J.R.R. Tolkien'' ''British'',
      example_author 3 ''Jane Austen'' ''British'']"
  by (simp add: sort_by_path_def catalogue_def example_author_def bson_order_def)

lemma authors_page_two:
  "authors_page example_runtime catalogue page_two cur =
     Some (page_envelope [example_author 1 ''J.R.R. Tolkien'' ''British''] 3 cur 3)"
proof -
  have l: "length (authors catalogue) = 3" by (simp add: catalogue_def)
  have c: "Math_ceil_div 3 1 = 3" by (simp add: Math_ceil_div_def)
  show ?thesis
    by (simp add: authors_page_def find_all_catalogue sort_authors_catalogue l c skip_limit_def
      page_two_fields example_paging)
qed

text \<open>
  C10 fails on the basic variant, which answers \<^verbatim>\<open>currentPage: page\<close>, the page as it was
  received, where the extended variant answers \<^verbatim>\<open>currentPage: parseInt(page)\<close> and the
  route documents an integer. For \<^verbatim>\<open>GET /api/authors?page=2&limit=1\<close> on the catalogue the
  two variants return the same author, the same \<open>totalPages\<close> and the same \<open>total\<close>, but
  \<open>currentPage\<close> is the string \<^verbatim>\<open>"2"\<close> in the basic variant and the number 2 in the
  extended one: the pagination metadata are not the same.
\<close>

theorem getAllAuthors_basic_currentPage:
  "getAllAuthors_basic example_runtime catalogue page_two =
     Some (page_envelope [example_author 1 ''J.R.R. Tolkien'' ''British''] 3 (JString ''2'') 3) \<and>
   getAllAuthors_ext example_runtime catalogue page_two =
     Some (page_envelope [example_author 1 ''J.R.R. Tolkien'' ''British''] 3 (JNumber 2) 3) \<and>
   getAllAuthors_basic example_runtime catalogue page_two \<noteq>
     getAllAuthors_ext example_runtime catalogue page_two"
proof -
  have s: "aq_sortBy page_two = None" "aq_order page_two = None"
    by (simp_all add: page_two_fields)
  have b: "to_json (with_default 1 (aq_page page_two)) = JString ''2''"
    by (simp add: page_two_fields with_default_def to_json_def)
  have e: "number_json (parseInt example_runtime (with_default 1 (aq_page page_two))) = JNumber 2"
    by (simp add: page_two_fields example_paging number_json_def)
  show ?thesis
    unfolding getAllAuthors_basic_page getAllAuthors_ext_page [OF s] b e authors_page_two
    by (simp add: page_envelope_def envelope0_def)
qed

subsection \<open>The top-rated view\<close>

lemma lookup_member:
  assumes "g \<in> set (lookup_unwind_project cs (k, bs))"
  shows "categoryId g = k \<and> group_books g = bs \<and>
         ((categoryName g = None \<and> categorySlug g = None \<and>
           (\<forall>c \<in> set cs. Some (category_id c) \<noteq> k)) \<or>
          (\<exists>c \<in> set cs. Some (category_id c) = k \<and> categoryName g = Some (category_name c) \<and>
               categorySlug g = Some (category_slug c)))"
proof (cases "filter (\<lambda>c. Some (category_id c) = k) cs")
  case Nil
  then have "\<forall>c \<in> set cs. Some (category_id c) \<noteq> k"
    by (simp add: filter_empty_conv)
  with Nil assms show ?thesis
    by (simp add: lookup_unwind_project_def)
next
  case (Cons x xs)
  with assms obtain c where c: "c \<in> set (x # xs)"
    and g: "g = \<lparr> categoryId = k, categoryName = Some (category_name c),
                 categorySlug = Some (category_slug c), group_books = bs \<rparr>"
    by (auto simp: lookup_unwind_project_def)
  from c Cons have "c \<in> set (filter (\<lambda>c. Some (category_id c) = k) cs)" by simp
  then have "c \<in> set cs" "Some (category_id c) = k" by simp_all
  with g show ?thesis by auto
qed

lemma lookup_nonempty: "lookup_unwind_project cs g \<noteq> []"
  by (simp add: lookup_unwind_project_def split: list.splits)

lemma lookup_null:
  "lookup_unwind_project cs (None, bs) =
     [\<lparr> categoryId = None, categoryName = None, categorySlug = None, group_books = bs \<rparr>]"
  by (simp add: lookup_unwind_project_def)

text \<open>The groups before the final sort, one list for each key.\<close>

lemma aggregate_set:
  "set (aggregate_top_rated st) =
     (\<Union>k \<in> category ` set (match_rated (books st)).
        set (lookup_unwind_project (categories st)
               (k, take 10 (map push_book
                     (filter (\<lambda>b. category b = k) (sort_rating_title (match_rated (books st))))))))"
  by (auto simp: aggregate_top_rated_def sort_categoryName_def group_by_category_def slice_10_def
      sort_rating_title_def)

lemma rated_category_sorted:
  "filter (\<lambda>b. category b = k) (sort_rating_title (match_rated bs)) =
     sort_rating_title (filter (\<lambda>b. Some 0 < rating b \<and> category b = k) bs)"
  by (simp add: sort_rating_title_def match_rated_def filter_sort)

lemma aggregate_member:
  assumes "g \<in> set (aggregate_top_rated st)"
  shows "group_books g =
           take 10 (map push_book
             (sort_rating_title (filter (\<lambda>b. Some 0 < rating b \<and> category b = categoryId g) (books st)))) \<and>
         (categoryId g = None \<longrightarrow> categoryName g = None) \<and>
         ((categoryName g = None \<and> categorySlug g = None \<and>
           (\<forall>c \<in> set (categories st). Some (category_id c) \<noteq> categoryId g)) \<or>
          (\<exists>c \<in> set (categories st). Some (category_id c) = categoryId g \<and>
               categoryName g = Some (category_name c) \<and>
               categorySlug g = Some (category_slug c)))"
proof -
  from assms obtain k where
    "g \<in> set (lookup_unwind_project (categories st)
               (k, take 10 (map push_book
                     (filter (\<lambda>b. category b = k) (sort_rating_title (match_rated (books st)))))))"
    unfolding aggregate_set by blast
  from lookup_member [OF this] show ?thesis
    by (auto simp: rated_category_sorted)
qed

lemma aggregate_covers:
  assumes "b \<in> set (books st)" and "Some 0 < rating b"
  shows "category b \<in> categoryId ` set (aggregate_top_rated st)"
proof -
  let ?k = "category b"
  let ?l = "lookup_unwind_project (categories st)
               (?k, take 10 (map push_book
                     (filter (\<lambda>b. category b = ?k) (sort_rating_title (match_rated (books st))))))"
  from lookup_nonempty [of "categories st"] obtain g where g: "g \<in> set ?l"
    by (cases ?l) auto
  from lookup_member [OF g] have id: "categoryId g = ?k" by simp
  from assms have "?k \<in> category ` set (match_rated (books st))"
    by (simp add: match_rated_def)
  with g have "g \<in> set (aggregate_top_rated st)"
    unfolding aggregate_set by blast
  with id show ?thesis by force
qed

text \<open>At most one group has the id null.\<close>

lemma null_groups_of_keys:
  assumes "distinct ks" and "\<And>k g. g \<in> set (h k) \<Longrightarrow> categoryId g = k"
  shows "filter (\<lambda>g. categoryId g = None) (concat (map h ks)) = (if None \<in> set ks then h None else [])"
  using assms(1)
proof (induction ks)
  case Nil
  then show ?case by simp
next
  case (Cons k ks)
  have here: "filter (\<lambda>g. categoryId g = None) (h k) = (if k = None then h None else [])"
    using assms(2) [of _ k] by (auto simp: filter_empty_conv filter_id_conv)
  from Cons show ?case
    by (auto simp: here)
qed

lemma aggregate_null_groups:
  "length (filter (\<lambda>g. categoryId g = None) (aggregate_top_rated st)) \<le> 1"
proof -
  let ?S = "sort_rating_title (match_rated (books st))"
  let ?h = "\<lambda>k. lookup_unwind_project (categories st)
      (k, take 10 (map push_book (filter (\<lambda>b. category b = k) ?S)))"
  have c: "concat (map (lookup_unwind_project (categories st))
          (map slice_10 (group_by_category ?S))) = concat (map ?h (remdups (map category ?S)))"
    by (simp add: group_by_category_def slice_10_def comp_def)
  have "filter (\<lambda>g. categoryId g = None) (concat (map ?h (remdups (map category ?S)))) =
      (if None \<in> set (remdups (map category ?S)) then ?h None else [])"
    by (rule null_groups_of_keys) (use lookup_member in auto)
  then have "length (filter (\<lambda>g. categoryId g = None)
      (concat (map ?h (remdups (map category ?S))))) \<le> 1"
    by (simp add: lookup_null)
  moreover have "aggregate_top_rated st =
      sort_key categoryName (concat (map ?h (remdups (map category ?S))))"
    by (simp only: aggregate_top_rated_def sort_categoryName_def c)
  ultimately show ?thesis
    by (simp only: filter_sort length_sort)
qed

lemma name_uncategorized_ids:
  "map categoryId (name_uncategorized gs) = map categoryId gs \<and>
   map group_books (name_uncategorized gs) = map group_books gs \<and>
   map sorted_name (name_uncategorized gs) = map sorted_name gs"
  by (induction gs) (simp_all add: sorted_name_def)

lemma name_uncategorized_member:
  assumes "g' \<in> set (name_uncategorized gs)"
  shows "\<exists>g \<in> set gs. categoryId g' = categoryId g \<and> group_books g' = group_books g \<and>
           (categoryId g \<noteq> None \<longrightarrow> g' = g)"
  using assms
proof (induction gs)
  case Nil
  then show ?case by simp
next
  case (Cons g gs)
  show ?case
  proof (cases "categoryId g = None")
    case True
    with Cons.prems show ?thesis by auto
  next
    case False
    with Cons show ?thesis by auto
  qed
qed

lemma name_uncategorized_all:
  assumes "length (filter (\<lambda>g. categoryId g = None) gs) \<le> 1"
    and "g' \<in> set (name_uncategorized gs)" and "categoryId g' = None"
  shows "categoryName g' = Some ''Uncategorized'' \<and> categorySlug g' = Some ''uncategorized''"
  using assms
proof (induction gs)
  case Nil
  then show ?case by simp
next
  case (Cons g gs)
  show ?case
  proof (cases "categoryId g = None")
    case True
    with Cons.prems(1) have "filter (\<lambda>g. categoryId g = None) gs = []" by simp
    then have "\<forall>x \<in> set gs. categoryId x \<noteq> None" by (simp add: filter_empty_conv)
    with True Cons.prems(2,3) show ?thesis by auto
  next
    case False
    with Cons show ?thesis by auto
  qed
qed

lemma sorted_rating_title:
  "sorted_wrt rating_then_title (map push_book (sort_rating_title bs))"
proof -
  have "sorted (map (\<lambda>b. (rating_descending (rating b), title b)) (sort_rating_title bs))"
    unfolding sort_rating_title_def by (rule sorted_sort_key)
  then have "sorted_wrt (\<lambda>x y. (rating_descending (rating x), title x) \<le>
      (rating_descending (rating y), title y)) (sort_rating_title bs)"
    by (simp add: sorted_map)
  then have "sorted_wrt (\<lambda>x y. rating_then_title (push_book x) (push_book y)) (sort_rating_title bs)"
    by (rule sorted_wrt_mono_rel [rotated])
      (auto simp: rating_then_title_def push_book_def rating_descending_def
        less_eq_prod_def less_prod_def split: option.splits)
  then show ?thesis by (simp add: sorted_wrt_map)
qed


lemma populate_group_fields:
  "categoryId (populate_group st g) = categoryId g"
  "categoryName (populate_group st g) = categoryName g"
  "categorySlug (populate_group st g) = categorySlug g"
  "map fst (group_books (populate_group st g)) = group_books g"
  by (simp_all add: populate_group_def comp_def)

lemma top_rated_member:
  assumes "g \<in> set (top_rated_groups st)"
  shows "\<exists>a \<in> set (aggregate_top_rated st).
           categoryId g = categoryId a \<and> map fst (group_books g) = group_books a \<and>
           (categoryId a \<noteq> None \<longrightarrow>
              categoryName g = categoryName a \<and> categorySlug g = categorySlug a)"
proof -
  from assms obtain p where p: "p \<in> set (map (populate_group st) (aggregate_top_rated st))"
    and pg: "categoryId g = categoryId p" "group_books g = group_books p"
      "categoryId p \<noteq> None \<longrightarrow> g = p"
    unfolding top_rated_groups_def using name_uncategorized_member by blast
  from p obtain a where a: "a \<in> set (aggregate_top_rated st)" and pa: "p = populate_group st a"
    by auto
  have "categoryId g = categoryId a" by (simp add: pg pa populate_group_fields)
  moreover have "map fst (group_books g) = group_books a"
    by (simp add: pg pa populate_group_fields)
  moreover have "categoryName g = categoryName a \<and> categorySlug g = categorySlug a"
    if "categoryId a \<noteq> None"
    using that pg(3) by (simp add: pa populate_group_fields)
  ultimately show ?thesis using a by blast
qed

lemma top_rated_sorted: "sorted (map sorted_name (top_rated_groups st))"
proof -
  have n: "sorted_name (populate_group st a) = categoryName a"
    if "a \<in> set (aggregate_top_rated st)" for a
    using aggregate_member [OF that]
    by (auto simp: sorted_name_def populate_group_fields)
  have "map sorted_name (top_rated_groups st) =
      map sorted_name (map (populate_group st) (aggregate_top_rated st))"
    by (simp add: top_rated_groups_def name_uncategorized_ids)
  also have "\<dots> = map categoryName (aggregate_top_rated st)"
    using n by simp
  also have "sorted \<dots>"
    unfolding aggregate_top_rated_def sort_categoryName_def by (rule sorted_sort_key)
  finally show ?thesis .
qed

lemma top_rated_null_named:
  assumes "g \<in> set (top_rated_groups st)" and "categoryId g = None"
  shows "categoryName g = Some ''Uncategorized'' \<and> categorySlug g = Some ''uncategorized''"
proof -
  have "filter (\<lambda>g. categoryId g = None) (map (populate_group st) (aggregate_top_rated st)) =
      map (populate_group st) (filter (\<lambda>g. categoryId g = None) (aggregate_top_rated st))"
    by (simp add: filter_map comp_def populate_group_fields)
  then have "length (filter (\<lambda>g. categoryId g = None)
      (map (populate_group st) (aggregate_top_rated st))) \<le> 1"
    using aggregate_null_groups [of st] by simp
  from name_uncategorized_all [OF this] assms show ?thesis
    by (simp add: top_rated_groups_def)
qed

text \<open>
  C7, as amended. The view contains only Books with a rating above 0. Each group holds the
  first 10, in the order rating descending and then title ascending, of the rated Books of
  its category, so all of them when the category has at most 10; and every category of a
  rated Book has a group. The group of the Books without category is rendered with the name
  \<^verbatim>\<open>Uncategorized\<close> and the slug \<^verbatim>\<open>uncategorized\<close>; any other group carries the name and
  slug of a Category with its id, or none when there is no such Category. The groups are in
  ascending order of the name the pipeline sorts them by, under which the group without
  category has no name and comes first.
\<close>

theorem top_rated_view:
  "fst (getTopRatedBooksByCategory st) = 200 \<and>
   data (snd (getTopRatedBooksByCategory st)) = Some (top_rated_groups st) \<and>
   (\<forall>g \<in> set (top_rated_groups st).
      map fst (group_books g) =
        take 10 (map push_book (sort_rating_title
          (filter (\<lambda>b. Some 0 < rating b \<and> category b = categoryId g) (books st)))) \<and>
      length (group_books g) \<le> 10 \<and>
      sorted_wrt rating_then_title (map fst (group_books g)) \<and>
      (categoryId g = None \<longrightarrow>
         categoryName g = Some ''Uncategorized'' \<and> categorySlug g = Some ''uncategorized'') \<and>
      (categoryId g \<noteq> None \<longrightarrow>
         (categoryName g = None \<and>
          (\<forall>c \<in> set (categories st). Some (category_id c) \<noteq> categoryId g)) \<or>
         (\<exists>c \<in> set (categories st). Some (category_id c) = categoryId g \<and>
              categoryName g = Some (category_name c) \<and>
              categorySlug g = Some (category_slug c)))) \<and>
   (\<forall>b \<in> set (books st). Some 0 < rating b \<longrightarrow> category b \<in> categoryId ` set (top_rated_groups st)) \<and>
   sorted (map sorted_name (top_rated_groups st))"
proof (intro conjI ballI impI)
  show "fst (getTopRatedBooksByCategory st) = 200"
    by (simp add: getTopRatedBooksByCategory_def Let_def)
  show "data (snd (getTopRatedBooksByCategory st)) = Some (top_rated_groups st)"
    by (simp add: getTopRatedBooksByCategory_def Let_def)
  show "sorted (map sorted_name (top_rated_groups st))"
    by (rule top_rated_sorted)
next
  fix b
  assume "b \<in> set (books st)" and "Some 0 < rating b"
  from aggregate_covers [OF this]
  have "category b \<in> set (map categoryId (map (populate_group st) (aggregate_top_rated st)))"
    by (simp add: comp_def populate_group_fields)
  then have "category b \<in> set (map categoryId (top_rated_groups st))"
    by (simp only: top_rated_groups_def name_uncategorized_ids)
  then show "category b \<in> categoryId ` set (top_rated_groups st)" by simp
next
  fix g
  assume g: "g \<in> set (top_rated_groups st)"
  from top_rated_member [OF g] obtain a where a: "a \<in> set (aggregate_top_rated st)"
    and ga: "categoryId g = categoryId a" "map fst (group_books g) = group_books a"
    "categoryId a \<noteq> None \<longrightarrow> categoryName g = categoryName a \<and> categorySlug g = categorySlug a"
    by blast
  note m = aggregate_member [OF a]
  show form: "map fst (group_books g) =
        take 10 (map push_book (sort_rating_title
          (filter (\<lambda>b. Some 0 < rating b \<and> category b = categoryId g) (books st))))"
    using m by (simp add: ga)
  have "length (map fst (group_books g)) \<le> 10"
    unfolding form by simp
  then show "length (group_books g) \<le> 10" by simp
  show "sorted_wrt rating_then_title (map fst (group_books g))"
    unfolding form by (rule sorted_wrt_take) (rule sorted_rating_title)
  show "categoryName g = Some ''Uncategorized''" if "categoryId g = None"
    using top_rated_null_named [OF g that] by simp
  show "categorySlug g = Some ''uncategorized''" if "categoryId g = None"
    using top_rated_null_named [OF g that] by simp
  show "(categoryName g = None \<and>
          (\<forall>c \<in> set (categories st). Some (category_id c) \<noteq> categoryId g)) \<or>
         (\<exists>c \<in> set (categories st). Some (category_id c) = categoryId g \<and>
              categoryName g = Some (category_name c) \<and>
              categorySlug g = Some (category_slug c))"
    if "categoryId g \<noteq> None"
  proof -
    from that have "categoryId a \<noteq> None" by (simp add: ga)
    with ga(3) m show ?thesis by (auto simp: ga(1))
  qed
qed

text \<open>The view of the catalogue, and of the eleven rated books.\<close>

lemma top_rated_catalogue:
  "map (\<lambda>g. (categoryId g, categoryName g, map (pb_title \<circ> fst) (group_books g)))
     (top_rated_groups catalogue) =
   [(None, Some ''Uncategorized'', [''Dune'', ''Dune Messiah'']),
    (Some 21, Some ''Classics'', [''The Hobbit''])]"
  by (simp add: top_rated_groups_def aggregate_top_rated_def sort_categoryName_def
      lookup_unwind_project_def slice_10_def group_by_category_def sort_rating_title_def
      rating_descending_def match_rated_def catalogue_def example_book_def push_book_def
      populate_group_def)

lemma top_rated_eleven:
  "map (\<lambda>g. (categoryId g, categoryName g, map (pb_title \<circ> fst) (group_books g)))
     (top_rated_groups eleven_rated) =
   [(None, Some ''Uncategorized'', [''Volume A'', ''Volume B'', ''Volume C'', ''Volume D'',
      ''Volume E'', ''Volume F'', ''Volume G'', ''Volume H'', ''Volume I'', ''Volume J''])]"
  by (simp add: top_rated_groups_def aggregate_top_rated_def sort_categoryName_def
      lookup_unwind_project_def slice_10_def group_by_category_def sort_rating_title_def
      rating_descending_def match_rated_def eleven_rated_def example_book_def push_book_def
      populate_group_def)


theorem top_rated_view_witness:
  "map (\<lambda>g. (categoryId g, categoryName g, map (pb_title \<circ> fst) (group_books g)))
     (top_rated_groups catalogue) =
     [(None, Some ''Uncategorized'', [''Dune'', ''Dune Messiah'']),
      (Some 21, Some ''Classics'', [''The Hobbit''])] \<and>
   sorted (map sorted_name (top_rated_groups catalogue)) \<and>
   list_all (\<lambda>g. length (group_books g) \<le> 10 \<and>
                 sorted_wrt rating_then_title (map fst (group_books g)))
     (top_rated_groups catalogue) \<and>
   Some 21 \<in> categoryId ` set (top_rated_groups catalogue)"
proof -
  let ?hobbit = "example_book 11 ''The Hobbit'' 1 ''9780261102217'' ''Fantasy'' (9 / 2) (Some 21) 100"
  have h: "?hobbit \<in> set (books catalogue)" "Some 0 < rating ?hobbit" "category ?hobbit = Some 21"
    by (simp_all add: catalogue_def example_book_def)
  note v = top_rated_view [of catalogue]
  note groups = v [THEN conjunct2, THEN conjunct2, THEN conjunct1]
  note covers = v [THEN conjunct2, THEN conjunct2, THEN conjunct2, THEN conjunct1]
  note order = v [THEN conjunct2, THEN conjunct2, THEN conjunct2, THEN conjunct2]
  have "sorted (map sorted_name (top_rated_groups catalogue))" by (rule order)
  moreover have "list_all (\<lambda>g. length (group_books g) \<le> 10 \<and>
                 sorted_wrt rating_then_title (map fst (group_books g)))
     (top_rated_groups catalogue)"
    unfolding list_all_iff
  proof
    fix g
    assume "g \<in> set (top_rated_groups catalogue)"
    note gg = groups [rule_format, OF this]
    show "length (group_books g) \<le> 10 \<and> sorted_wrt rating_then_title (map fst (group_books g))"
      using gg [THEN conjunct2, THEN conjunct1]
        gg [THEN conjunct2, THEN conjunct2, THEN conjunct1]
      by (rule conjI)
  qed
  moreover have "Some 21 \<in> categoryId ` set (top_rated_groups catalogue)"
    using covers [rule_format, OF h(1) h(2)] by (simp only: h(3))
  ultimately show ?thesis
    using top_rated_catalogue by simp
qed

text \<open>
  The claim as stated fails. In the catalogue the group \<^verbatim>\<open>Uncategorized\<close> comes before the
  group \<^verbatim>\<open>Classics\<close>: the groups are not in ascending order of the names they are rendered
  with. And of eleven rated books without category the view holds ten, not exactly the
  Books with a rating above 0.
\<close>

theorem top_rated_view_counterexample:
  "map categoryName (top_rated_groups catalogue) = [Some ''Uncategorized'', Some ''Classics''] \<and>
   \<not> sorted (map categoryName (top_rated_groups catalogue)) \<and>
   length (books eleven_rated) = 11 \<and>
   list_all (\<lambda>b. Some 0 < rating b) (books eleven_rated) \<and>
   map (\<lambda>g. length (group_books g)) (top_rated_groups eleven_rated) = [10]"
proof -
  have a: "map categoryName (top_rated_groups catalogue) =
      map (fst \<circ> snd) (map (\<lambda>g. (categoryId g, categoryName g, map (pb_title \<circ> fst) (group_books g)))
        (top_rated_groups catalogue))"
    by (simp add: comp_def)
  have b: "map (\<lambda>g. length (group_books g)) (top_rated_groups eleven_rated) =
      map (length \<circ> snd \<circ> snd) (map (\<lambda>g. (categoryId g, categoryName g, map (pb_title \<circ> fst) (group_books g)))
        (top_rated_groups eleven_rated))"
    by (simp add: comp_def)
  have n: "map categoryName (top_rated_groups catalogue) = [Some ''Uncategorized'', Some ''Classics'']"
    unfolding a top_rated_catalogue by simp
  have t: "map (\<lambda>g. length (group_books g)) (top_rated_groups eleven_rated) = [10]"
    unfolding b top_rated_eleven by simp
  have e: "length (books eleven_rated) = 11" "list_all (\<lambda>b. Some 0 < rating b) (books eleven_rated)"
    by (simp_all add: eleven_rated_def example_book_def)
  show ?thesis
    using n t e by simp
qed
end
